theory Spec2Isabelle
  imports Main "HOL-Library.Word" "HOL-Library.Multiset"
begin

section \<open>Pathogen layout extensions: record and vtable layout extraction\<close>

text \<open>
  A shallow embedding of \<^verbatim>\<open>PathogenLayoutExtensions.cpp\<close>. The two singly linked
  lists of the source (\<^verbatim>\<open>FirstField/NextField\<close> and \<^verbatim>\<open>FirstVTable/NextVTable\<close>)
  are HOL lists read from the head; a pointer to a node of the field list is the position
  of the node in the list. The answers of the external type system (libclang) are data:
  each query the source makes is a field of a record describing the declaration.
\<close>

subsection \<open>Machine integers and opaque handles\<close>

type_synonym int64_t = "64 word"  \<comment> \<open>read as two's complement with \<open>sint\<close>\<close>
type_synonym uint64_t = "64 word"
type_synonym int32_t = "32 word"
type_synonym unsigned_int = "32 word"
type_synonym c_int = "32 word"
type_synonym size_t = "64 word"

type_synonym decl_ptr = "nat option"  \<comment> \<open>a declaration pointer; \<open>None\<close> is \<open>nullptr\<close>\<close>
type_synonym QualType = nat
type_synonym CXTranslationUnit = nat

datatype CXType = CXType_zero | MakeCXType QualType CXTranslationUnit

datatype CXCursorHandle = CXCursor_zero | MakeCXCursor decl_ptr CXTranslationUnit

subsection \<open>The data model of the source\<close>

datatype PathogenRecordFieldKind =
  Normal | VTablePtr | NonVirtualBase | VirtualBaseTablePtr | VTorDisp | VirtualBase

record PathogenRecordField =
  Kind :: PathogenRecordFieldKind
  Offset :: int64_t
  Name :: string
  Type :: CXType
  FieldDeclaration :: CXCursorHandle
  IsBitField :: bool
  BitFieldStart :: unsigned_int
  BitFieldWidth :: unsigned_int
  IsPrimaryBase :: bool

text \<open>
  \<^verbatim>\<open>enum class PathogenVTableEntryKind : int32_t\<close>: a value of the enumeration is its
  underlying integer, and the enumerators are named constants counting from 0. The source
  converts the external builder's kind to this type by a cast of the integer.
\<close>

datatype PathogenVTableEntryKind = PathogenVTableEntryKind (kind_value: int)

definition VCallOffset :: PathogenVTableEntryKind where
  "VCallOffset = PathogenVTableEntryKind 0"
definition VBaseOffset :: PathogenVTableEntryKind where
  "VBaseOffset = PathogenVTableEntryKind 1"
definition OffsetToTop :: PathogenVTableEntryKind where
  "OffsetToTop = PathogenVTableEntryKind 2"
definition RTTI :: PathogenVTableEntryKind where
  "RTTI = PathogenVTableEntryKind 3"
definition FunctionPointer :: PathogenVTableEntryKind where
  "FunctionPointer = PathogenVTableEntryKind 4"
definition CompleteDestructorPointer :: PathogenVTableEntryKind where
  "CompleteDestructorPointer = PathogenVTableEntryKind 5"
definition DeletingDestructorPointer :: PathogenVTableEntryKind where
  "DeletingDestructorPointer = PathogenVTableEntryKind 6"
definition UnusedFunctionPointer :: PathogenVTableEntryKind where
  "UnusedFunctionPointer = PathogenVTableEntryKind 7"

record PathogenVTableEntry =
  EntryKind :: PathogenVTableEntryKind
  MethodDeclaration :: CXCursorHandle
  RttiType :: CXCursorHandle
  EntryOffset :: int64_t

record PathogenVTable =
  EntryCount :: int32_t
  Entries :: "PathogenVTableEntry list"

record PathogenRecordLayout =
  FirstField :: "PathogenRecordField list"
  FirstVTable :: "PathogenVTable list"
  Size :: int64_t
  Alignment :: int64_t
  IsCppRecord :: bool
  NonVirtualSize :: int64_t
  NonVirtualAlignment :: int64_t

record PathogenTypeSizes =
  sizes_PathogenTypeSizes :: c_int
  sizes_PathogenRecordLayout :: c_int
  sizes_PathogenRecordField :: c_int
  sizes_PathogenVTable :: c_int
  sizes_PathogenVTableEntry :: c_int

subsection \<open>The external type system, as the source queries it\<close>

text \<open>
  Modelled from the spec: the external vtable builder's component-kind enumeration
  (\<^verbatim>\<open>VTableComponent::Kind\<close> of \<^verbatim>\<open>clang/AST/VTableBuilder.h\<close>) is not under src/. Its
  enumerators are given the ordinals that the eight \<^verbatim>\<open>static_assert\<close>s of the source
  (\<^verbatim>\<open>verify_vtable_entry_kind\<close>) require for the file to compile, which is the
  value-for-value mirror the spec describes.
\<close>

datatype VTableComponent_Kind = VTableComponent_Kind (component_kind_value: int)

definition CK_VCallOffset :: VTableComponent_Kind where
  "CK_VCallOffset = VTableComponent_Kind 0"
definition CK_VBaseOffset :: VTableComponent_Kind where
  "CK_VBaseOffset = VTableComponent_Kind 1"
definition CK_OffsetToTop :: VTableComponent_Kind where
  "CK_OffsetToTop = VTableComponent_Kind 2"
definition CK_RTTI :: VTableComponent_Kind where
  "CK_RTTI = VTableComponent_Kind 3"
definition CK_FunctionPointer :: VTableComponent_Kind where
  "CK_FunctionPointer = VTableComponent_Kind 4"
definition CK_CompleteDtorPointer :: VTableComponent_Kind where
  "CK_CompleteDtorPointer = VTableComponent_Kind 5"
definition CK_DeletingDtorPointer :: VTableComponent_Kind where
  "CK_DeletingDtorPointer = VTableComponent_Kind 6"
definition CK_UnusedFunctionPointer :: VTableComponent_Kind where
  "CK_UnusedFunctionPointer = VTableComponent_Kind 7"

record VTableComponent =
  getKind :: VTableComponent_Kind
  getVCallOffset :: int64_t
  getVBaseOffset :: int64_t
  getOffsetToTop :: int64_t
  getRTTIDecl :: decl_ptr
  getFunctionDecl :: decl_ptr

type_synonym VTableLayout = "VTableComponent list"  \<comment> \<open>\<^verbatim>\<open>vtable_components()\<close>\<close>

record FieldDecl =
  field_address :: decl_ptr
  field_getName :: string
  field_getType :: QualType
  isBitField :: bool
  getBitWidthValue :: unsigned_int

record CXXBaseSpecifier =
  isVirtual :: bool
  base_getType :: QualType
  getAsCXXRecordDecl :: decl_ptr

record ASTRecordLayout =
  getSize :: int64_t
  getAlignment :: int64_t
  getNonVirtualSize :: int64_t
  getNonVirtualAlignment :: int64_t
  getPrimaryBase :: decl_ptr
  hasOwnVFPtr :: bool
  hasOwnVBPtr :: bool
  getVBPtrOffset :: int64_t
  getFieldOffset :: "nat \<Rightarrow> uint64_t"
  getBaseClassOffset :: "decl_ptr \<Rightarrow> int64_t"
  getVBaseClassOffset :: "decl_ptr \<Rightarrow> int64_t"
  hasVtorDisp :: "decl_ptr \<Rightarrow> bool"
    \<comment> \<open>\<^verbatim>\<open>getVBaseOffsetsMap().find(vbase)->second.hasVtorDisp()\<close>\<close>

record CXXRecordDecl =
  isDynamicClass :: bool
  bases :: "CXXBaseSpecifier list"
  vbases :: "CXXBaseSpecifier list"
  getVFPtrOffsets :: "int64_t list"
    \<comment> \<open>Microsoft vtable context: \<^verbatim>\<open>FullOffsetInMDC\<close> of each \<^verbatim>\<open>VPtrInfo\<close>, in order\<close>
  getVFTableLayout :: "int64_t \<Rightarrow> VTableLayout"
  getVTableLayout :: VTableLayout  \<comment> \<open>Itanium vtable context\<close>

record RecordDecl =
  getDefinition :: decl_ptr
  record_fields :: "FieldDecl list"
  dyn_cast_CXXRecordDecl :: "CXXRecordDecl option"
  getASTRecordLayout :: ASTRecordLayout

datatype Decl = Decl_Record RecordDecl | Decl_Other

record ASTContext =
  CXXABI_isMicrosoft :: bool  \<comment> \<open>\<^verbatim>\<open>getTargetInfo().getCXXABI().isMicrosoft()\<close>\<close>
  VTableContext_isMicrosoft :: bool  \<comment> \<open>\<^verbatim>\<open>getVTableContext()->isMicrosoft()\<close>\<close>
  VoidPtrTy :: QualType
  getPointerType :: "QualType \<Rightarrow> QualType"

record CXCursor =
  clang_isDeclaration :: bool  \<comment> \<open>\<^verbatim>\<open>clang_isDeclaration(cursor.kind)\<close>\<close>
  getCursorDecl :: "Decl option"
  getCursorContext :: ASTContext
  clang_Cursor_getTranslationUnit :: CXTranslationUnit

text \<open>
  Modelled from the spec: \<^verbatim>\<open>ASTContext::toCharUnitsFromBits\<close> and \<^verbatim>\<open>ASTContext::toBits\<close>
  belong to the external type system and are not under src/. The spec has them convert a
  bit offset to a byte offset and back, with bytes of 8 bits; the division and the
  product are unsigned 64-bit, as the char width is an unsigned 64-bit quantity.
\<close>

definition getCharWidth :: uint64_t where
  "getCharWidth = 8"

definition toCharUnitsFromBits :: "uint64_t \<Rightarrow> int64_t" where
  "toCharUnitsFromBits BitSize = BitSize div getCharWidth"

definition toBits :: "int64_t \<Rightarrow> int64_t" where
  "toBits CharSize = CharSize * getCharWidth"

subsection \<open>Construction of the data model\<close>

text \<open>\<^verbatim>\<open>new PathogenRecordField()\<close> and \<^verbatim>\<open>new PathogenRecordLayout()\<close>: value-initialised.\<close>

definition new_PathogenRecordField :: PathogenRecordField where
  "new_PathogenRecordField =
     \<lparr>Kind = Normal, Offset = 0, Name = [], Type = CXType_zero,
      FieldDeclaration = CXCursor_zero, IsBitField = False, BitFieldStart = 0,
      BitFieldWidth = 0, IsPrimaryBase = False\<rparr>"

definition new_PathogenRecordLayout :: PathogenRecordLayout where
  "new_PathogenRecordLayout =
     \<lparr>FirstField = [], FirstVTable = [], Size = 0, Alignment = 0, IsCppRecord = False,
      NonVirtualSize = 0, NonVirtualAlignment = 0\<rparr>"

text \<open>The constructor of \<^verbatim>\<open>PathogenVTableEntry\<close>: the cast of the kind, then the switch.\<close>

definition new_PathogenVTableEntry ::
  "CXTranslationUnit \<Rightarrow> VTableComponent \<Rightarrow> PathogenVTableEntry" where
  "new_PathogenVTableEntry translationUnit component =
     (let kind = PathogenVTableEntryKind (component_kind_value (getKind component));
          this = \<lparr>EntryKind = kind, MethodDeclaration = CXCursor_zero,
                  RttiType = CXCursor_zero, EntryOffset = 0\<rparr>
      in if kind = VCallOffset then this\<lparr>EntryOffset := getVCallOffset component\<rparr>
         else if kind = VBaseOffset then this\<lparr>EntryOffset := getVBaseOffset component\<rparr>
         else if kind = OffsetToTop then this\<lparr>EntryOffset := getOffsetToTop component\<rparr>
         else if kind = RTTI
           then this\<lparr>RttiType := MakeCXCursor (getRTTIDecl component) translationUnit\<rparr>
         else if kind = FunctionPointer \<or> kind = CompleteDestructorPointer
                 \<or> kind = DeletingDestructorPointer \<or> kind = UnusedFunctionPointer
           then this\<lparr>MethodDeclaration :=
                        MakeCXCursor (getFunctionDecl component) translationUnit\<rparr>
         else this)"

text \<open>
  The constructor of \<^verbatim>\<open>PathogenVTable\<close>: the count is the size cast to 32 bits, and the
  loop runs while the signed index is below the signed count.
\<close>

definition new_PathogenVTable :: "CXTranslationUnit \<Rightarrow> VTableLayout \<Rightarrow> PathogenVTable" where
  "new_PathogenVTable translationUnit layout =
     (let components = layout;
          count = (word_of_nat (length components) :: int32_t)
      in \<lparr>EntryCount = count,
          Entries = map (new_PathogenVTableEntry translationUnit)
                        (take (nat (sint count)) components)\<rparr>)"

subsection \<open>Insertion into the two lists\<close>

text \<open>
  The loop of \<^verbatim>\<open>AddField\<close>: the insertion point moves past every node whose offset is
  at most the new offset (a signed comparison) and stops at the first other node or at
  the end. The result is the number of nodes passed.
\<close>

fun field_insertPoint :: "PathogenRecordField list \<Rightarrow> int64_t \<Rightarrow> nat" where
  "field_insertPoint [] offset = 0"
| "field_insertPoint (f # rest) offset =
     (if sint (Offset f) \<le> sint offset then Suc (field_insertPoint rest offset) else 0)"

text \<open>\<^verbatim>\<open>AddField(kind, offset, name, type)\<close> returns the new node (its position) and the layout.\<close>

definition AddField ::
  "PathogenRecordLayout \<Rightarrow> PathogenRecordFieldKind \<Rightarrow> int64_t \<Rightarrow> string \<Rightarrow> CXType
     \<Rightarrow> nat \<times> PathogenRecordLayout" where
  "AddField this kind offset name type =
     (let insertPoint = field_insertPoint (FirstField this) offset;
          field = new_PathogenRecordField
                    \<lparr>Kind := kind, Offset := offset, Name := name, Type := type\<rparr>
      in (insertPoint,
          this\<lparr>FirstField := take insertPoint (FirstField this) @ field #
                               drop insertPoint (FirstField this)\<rparr>))"

text \<open>
  An assignment through a field pointer: \<^verbatim>\<open>field->X = v\<close>. The source only assigns
  through the pointer that \<^verbatim>\<open>AddField\<close> has just returned, which is a position of the
  list (lemma \<open>nth_splice_field\<close> below).
\<close>

definition assign_field ::
  "PathogenRecordLayout \<Rightarrow> nat \<Rightarrow> (PathogenRecordField \<Rightarrow> PathogenRecordField)
     \<Rightarrow> PathogenRecordLayout" where
  "assign_field this p upd =
     (if p < length (FirstField this)
      then this\<lparr>FirstField := (FirstField this)[p := upd (FirstField this ! p)]\<rparr>
      else this)"

text \<open>\<^verbatim>\<open>AddField(kind, offset, translationUnit, field)\<close>, the overload for a declared field.\<close>

definition AddField_decl ::
  "PathogenRecordLayout \<Rightarrow> PathogenRecordFieldKind \<Rightarrow> int64_t \<Rightarrow> CXTranslationUnit
     \<Rightarrow> FieldDecl \<Rightarrow> nat \<times> PathogenRecordLayout" where
  "AddField_decl this kind offset translationUnit field =
     (let type = MakeCXType (field_getType field) translationUnit;
          (ret, this1) = AddField this kind offset (field_getName field) type
      in (ret, assign_field this1 ret
                 (\<lambda>f. f\<lparr>FieldDeclaration :=
                           MakeCXCursor (field_address field) translationUnit\<rparr>)))"

text \<open>The loop of \<^verbatim>\<open>AddVTableLayout\<close> walks to the end of the chain.\<close>

fun vtable_insertPoint :: "PathogenVTable list \<Rightarrow> nat" where
  "vtable_insertPoint [] = 0"
| "vtable_insertPoint (v # rest) = Suc (vtable_insertPoint rest)"

definition AddVTableLayout ::
  "PathogenRecordLayout \<Rightarrow> CXTranslationUnit \<Rightarrow> VTableLayout \<Rightarrow> PathogenRecordLayout" where
  "AddVTableLayout this translationUnit layout =
     (let insertPoint = vtable_insertPoint (FirstVTable this);
          vTable = new_PathogenVTable translationUnit layout
      in this\<lparr>FirstVTable := take insertPoint (FirstVTable this) @ vTable #
                               drop insertPoint (FirstVTable this)\<rparr>)"

subsection \<open>The extraction operation\<close>

definition IsMsLayout :: "ASTContext \<Rightarrow> bool" where
  "IsMsLayout context = CXXABI_isMicrosoft context"

definition dyn_cast_or_null_RecordDecl :: "Decl option \<Rightarrow> RecordDecl option" where
  "dyn_cast_or_null_RecordDecl declaration =
     (case declaration of
        None \<Rightarrow> None
      | Some Decl_Other \<Rightarrow> None
      | Some (Decl_Record record) \<Rightarrow> Some record)"

text \<open>
  The body of \<^verbatim>\<open>pathogen_GetRecordLayout\<close> is written below step by step, one
  definition for each commented block of the source, each taking the layout built so far.
  The two \<^verbatim>\<open>assert\<close>s on the bases expand to nothing in a release build and are
  preconditions on the external type system, as are the presence of every base in the
  layout's offset maps.
\<close>

text \<open>\<^verbatim>\<open>// Add vtable pointer\<close>\<close>

definition add_vtable_pointer ::
  "ASTContext \<Rightarrow> CXXRecordDecl \<Rightarrow> ASTRecordLayout \<Rightarrow> CXType \<Rightarrow> PathogenRecordLayout
     \<Rightarrow> PathogenRecordLayout" where
  "add_vtable_pointer context cxxRecord layout voidPointerPointerType ret =
     (if isDynamicClass cxxRecord \<and> getPrimaryBase layout = None \<and> \<not> IsMsLayout context
      then snd (AddField ret VTablePtr 0 ''vtable_pointer'' voidPointerPointerType)
      else if hasOwnVFPtr layout
      then snd (AddField ret VTablePtr 0 ''vftable_pointer'' voidPointerPointerType)
      else ret)"

text \<open>\<^verbatim>\<open>// Add non-virtual bases\<close>\<close>

fun add_nonvirtual_bases ::
  "CXTranslationUnit \<Rightarrow> ASTRecordLayout \<Rightarrow> CXXBaseSpecifier list \<Rightarrow> PathogenRecordLayout
     \<Rightarrow> PathogenRecordLayout" where
  "add_nonvirtual_bases translationUnit layout [] ret = ret"
| "add_nonvirtual_bases translationUnit layout (base # rest) ret =
     (if isVirtual base then add_nonvirtual_bases translationUnit layout rest ret
      else
        let baseType = base_getType base;
            cxType = MakeCXType baseType translationUnit;
            baseRecord = getAsCXXRecordDecl base;
            isPrimary = (baseRecord = getPrimaryBase layout);
            offset = getBaseClassOffset layout baseRecord;
            (field, ret1) = AddField ret NonVirtualBase offset
                              (if isPrimary then ''primary_base'' else ''base'') cxType;
            ret2 = assign_field ret1 field (\<lambda>f. f\<lparr>IsPrimaryBase := isPrimary\<rparr>)
        in add_nonvirtual_bases translationUnit layout rest ret2)"

text \<open>\<^verbatim>\<open>// Vbptr - Microsoft C++ ABI\<close>\<close>

definition add_vbtable_pointer ::
  "ASTRecordLayout \<Rightarrow> CXType \<Rightarrow> PathogenRecordLayout \<Rightarrow> PathogenRecordLayout" where
  "add_vbtable_pointer layout voidPointerType ret =
     (if hasOwnVBPtr layout
      then snd (AddField ret VirtualBaseTablePtr (getVBPtrOffset layout)
                  ''vbtable_pointer'' voidPointerType)
      else ret)"

text \<open>\<^verbatim>\<open>// Add normal fields\<close>: the loop over the declared fields, with its index.\<close>

fun add_normal_fields ::
  "CXTranslationUnit \<Rightarrow> ASTRecordLayout \<Rightarrow> FieldDecl list \<Rightarrow> nat \<Rightarrow> PathogenRecordLayout
     \<Rightarrow> PathogenRecordLayout" where
  "add_normal_fields translationUnit layout [] fieldIndex ret = ret"
| "add_normal_fields translationUnit layout (field # rest) fieldIndex ret =
     (let offsetBits = getFieldOffset layout fieldIndex;
          offsetChars = toCharUnitsFromBits offsetBits;
          offset = offsetChars;
          (pathogenField, ret1) = AddField_decl ret Normal offset translationUnit field;
          ret2 = (if isBitField field
                  then assign_field ret1 pathogenField
                         (\<lambda>f. f\<lparr>IsBitField := True,
                                 BitFieldStart := ucast (offsetBits - toBits offsetChars),
                                 BitFieldWidth := getBitWidthValue field\<rparr>)
                  else ret1)
      in add_normal_fields translationUnit layout rest (fieldIndex + 1) ret2)"

text \<open>\<^verbatim>\<open>// Add virtual bases\<close>\<close>

fun add_virtual_bases ::
  "CXTranslationUnit \<Rightarrow> ASTRecordLayout \<Rightarrow> CXXBaseSpecifier list \<Rightarrow> PathogenRecordLayout
     \<Rightarrow> PathogenRecordLayout" where
  "add_virtual_bases translationUnit layout [] ret = ret"
| "add_virtual_bases translationUnit layout (base # rest) ret =
     (let baseType = base_getType base;
          baseCxType = MakeCXType baseType translationUnit;
          vbase = getAsCXXRecordDecl base;
          offset = getVBaseClassOffset layout vbase;
          ret1 = (if hasVtorDisp layout vbase
                  then snd (AddField ret VTorDisp (offset - 4) ''vtordisp'' baseCxType)
                  else ret);
          isPrimary = (vbase = getPrimaryBase layout);
          (field, ret2) = AddField ret1 VirtualBase offset
                            (if isPrimary then ''primary_virtual_base'' else ''virtual_base'')
                            baseCxType;
          ret3 = assign_field ret2 field (\<lambda>f. f\<lparr>IsPrimaryBase := isPrimary\<rparr>)
      in add_virtual_bases translationUnit layout rest ret3)"

text \<open>\<^verbatim>\<open>// Add VTable layouts\<close>\<close>

fun add_vftable_layouts ::
  "CXTranslationUnit \<Rightarrow> CXXRecordDecl \<Rightarrow> int64_t list \<Rightarrow> PathogenRecordLayout
     \<Rightarrow> PathogenRecordLayout" where
  "add_vftable_layouts translationUnit cxxRecord [] ret = ret"
| "add_vftable_layouts translationUnit cxxRecord (offset # rest) ret =
     add_vftable_layouts translationUnit cxxRecord rest
       (AddVTableLayout ret translationUnit (getVFTableLayout cxxRecord offset))"

definition add_vtable_layouts ::
  "ASTContext \<Rightarrow> CXTranslationUnit \<Rightarrow> CXXRecordDecl \<Rightarrow> PathogenRecordLayout
     \<Rightarrow> PathogenRecordLayout" where
  "add_vtable_layouts context translationUnit cxxRecord ret =
     (if VTableContext_isMicrosoft context
      then add_vftable_layouts translationUnit cxxRecord (getVFPtrOffsets cxxRecord) ret
      else AddVTableLayout ret translationUnit (getVTableLayout cxxRecord))"

text \<open>The part of \<^verbatim>\<open>pathogen_GetRecordLayout\<close> after the three early returns.\<close>

definition build_record_layout :: "CXCursor \<Rightarrow> RecordDecl \<Rightarrow> PathogenRecordLayout" where
  "build_record_layout cursor record =
     (let context = getCursorContext cursor;
          translationUnit = clang_Cursor_getTranslationUnit cursor;
          voidPointerType = MakeCXType (VoidPtrTy context) translationUnit;
          voidPointerPointerType =
            MakeCXType (getPointerType context (VoidPtrTy context)) translationUnit;
          layout = getASTRecordLayout record;
          cxxRecord = dyn_cast_CXXRecordDecl record;
          ret0 = new_PathogenRecordLayout
                   \<lparr>Size := getSize layout, Alignment := getAlignment layout\<rparr>;
          ret1 = (case cxxRecord of
                    None \<Rightarrow> ret0
                  | Some c \<Rightarrow> ret0\<lparr>IsCppRecord := True,
                                    NonVirtualSize := getNonVirtualSize layout,
                                    NonVirtualAlignment := getNonVirtualAlignment layout\<rparr>);
          ret2 = (case cxxRecord of
                    None \<Rightarrow> ret1
                  | Some c \<Rightarrow>
                      add_vbtable_pointer layout voidPointerType
                        (add_nonvirtual_bases translationUnit layout (bases c)
                           (add_vtable_pointer context c layout voidPointerPointerType ret1)));
          ret3 = add_normal_fields translationUnit layout (record_fields record) 0 ret2;
          ret4 = (case cxxRecord of
                    None \<Rightarrow> ret3
                  | Some c \<Rightarrow> add_virtual_bases translationUnit layout (vbases c) ret3);
          ret5 = (case cxxRecord of
                    None \<Rightarrow> ret4
                  | Some c \<Rightarrow> add_vtable_layouts context translationUnit c ret4)
      in ret5)"

text \<open>\<^verbatim>\<open>pathogen_GetRecordLayout\<close>: \<open>None\<close> is the null result.\<close>

definition pathogen_GetRecordLayout :: "CXCursor \<Rightarrow> PathogenRecordLayout option" where
  "pathogen_GetRecordLayout cursor =
     (if \<not> clang_isDeclaration cursor then None
      else case dyn_cast_or_null_RecordDecl (getCursorDecl cursor) of
             None \<Rightarrow> None
           | Some record \<Rightarrow>
               if getDefinition record = None then None
               else Some (build_record_layout cursor record))"

subsection \<open>The introspection operation\<close>

text \<open>
  The values of \<^verbatim>\<open>sizeof\<close> depend on the platform and are parameters. The comparison
  converts the buffer's \<^verbatim>\<open>int\<close> to \<^verbatim>\<open>size_t\<close> (sign extension); each assignment
  converts a \<^verbatim>\<open>size_t\<close> to \<^verbatim>\<open>int\<close> (truncation). The result is the returned flag and
  the buffer after the call.
\<close>

record sizeof_values =
  sizeof_PathogenTypeSizes :: size_t
  sizeof_PathogenRecordLayout :: size_t
  sizeof_PathogenRecordField :: size_t
  sizeof_PathogenVTable :: size_t
  sizeof_PathogenVTableEntry :: size_t

definition pathogen_GetTypeSizes ::
  "sizeof_values \<Rightarrow> PathogenTypeSizes \<Rightarrow> bool \<times> PathogenTypeSizes" where
  "pathogen_GetTypeSizes sz sizes =
     (if (scast (sizes_PathogenTypeSizes sizes) :: size_t) \<noteq> sizeof_PathogenTypeSizes sz
      then (False, sizes)
      else (True,
            sizes\<lparr>sizes_PathogenRecordLayout := ucast (sizeof_PathogenRecordLayout sz),
                  sizes_PathogenRecordField := ucast (sizeof_PathogenRecordField sz),
                  sizes_PathogenVTable := ucast (sizeof_PathogenVTable sz),
                  sizes_PathogenVTableEntry := ucast (sizeof_PathogenVTableEntry sz)\<rparr>))"

subsection \<open>The layout walk, as a list of slots in order of discovery\<close>

text \<open>
  The definitions of this subsection are not part of the source. They describe what the
  source's insertions amount to: \<open>splice_field\<close> is one ordered insertion on the list of
  nodes, \<open>field_init\<close> is the node that \<^verbatim>\<open>AddField\<close> creates, and the \<open>*_slots\<close>
  functions list, block by block, the nodes that \<^verbatim>\<open>pathogen_GetRecordLayout\<close> inserts, in
  the order in which it inserts them. The lemmas below prove that the source's functions
  compute exactly these.
\<close>

definition field_init ::
  "PathogenRecordFieldKind \<Rightarrow> int64_t \<Rightarrow> string \<Rightarrow> CXType \<Rightarrow> PathogenRecordField" where
  "field_init kind offset name type =
     new_PathogenRecordField\<lparr>Kind := kind, Offset := offset, Name := name, Type := type\<rparr>"

definition splice_field ::
  "PathogenRecordField \<Rightarrow> PathogenRecordField list \<Rightarrow> PathogenRecordField list" where
  "splice_field f fs =
     take (field_insertPoint fs (Offset f)) fs @ f # drop (field_insertPoint fs (Offset f)) fs"

definition offsets_of :: "PathogenRecordField list \<Rightarrow> int list" where
  "offsets_of fs = map (\<lambda>f. sint (Offset f)) fs"

definition vtable_pointer_slots ::
  "ASTContext \<Rightarrow> CXXRecordDecl \<Rightarrow> ASTRecordLayout \<Rightarrow> CXType \<Rightarrow> PathogenRecordField list" where
  "vtable_pointer_slots context c layout ty =
     (if isDynamicClass c \<and> getPrimaryBase layout = None \<and> \<not> IsMsLayout context
      then [field_init VTablePtr 0 ''vtable_pointer'' ty]
      else if hasOwnVFPtr layout then [field_init VTablePtr 0 ''vftable_pointer'' ty]
      else [])"

definition nonvirtual_base_slot ::
  "CXTranslationUnit \<Rightarrow> ASTRecordLayout \<Rightarrow> CXXBaseSpecifier \<Rightarrow> PathogenRecordField" where
  "nonvirtual_base_slot tu layout b =
     (field_init NonVirtualBase (getBaseClassOffset layout (getAsCXXRecordDecl b))
        (if getAsCXXRecordDecl b = getPrimaryBase layout then ''primary_base'' else ''base'')
        (MakeCXType (base_getType b) tu))
     \<lparr>IsPrimaryBase := (getAsCXXRecordDecl b = getPrimaryBase layout)\<rparr>"

definition nonvirtual_base_slots ::
  "CXTranslationUnit \<Rightarrow> ASTRecordLayout \<Rightarrow> CXXBaseSpecifier list \<Rightarrow> PathogenRecordField list" where
  "nonvirtual_base_slots tu layout bs =
     map (nonvirtual_base_slot tu layout) (filter (\<lambda>b. \<not> isVirtual b) bs)"

definition vbtable_pointer_slots :: "ASTRecordLayout \<Rightarrow> CXType \<Rightarrow> PathogenRecordField list" where
  "vbtable_pointer_slots layout ty =
     (if hasOwnVBPtr layout
      then [field_init VirtualBaseTablePtr (getVBPtrOffset layout) ''vbtable_pointer'' ty]
      else [])"

definition normal_slot ::
  "CXTranslationUnit \<Rightarrow> ASTRecordLayout \<Rightarrow> nat \<Rightarrow> FieldDecl \<Rightarrow> PathogenRecordField" where
  "normal_slot tu layout i fd =
     (let offsetBits = getFieldOffset layout i;
          f0 = (field_init Normal (toCharUnitsFromBits offsetBits) (field_getName fd)
                  (MakeCXType (field_getType fd) tu))
               \<lparr>FieldDeclaration := MakeCXCursor (field_address fd) tu\<rparr>
      in if isBitField fd
         then f0\<lparr>IsBitField := True,
                 BitFieldStart := ucast (offsetBits - toBits (toCharUnitsFromBits offsetBits)),
                 BitFieldWidth := getBitWidthValue fd\<rparr>
         else f0)"

fun normal_field_slots ::
  "CXTranslationUnit \<Rightarrow> ASTRecordLayout \<Rightarrow> FieldDecl list \<Rightarrow> nat \<Rightarrow> PathogenRecordField list" where
  "normal_field_slots tu layout [] i = []"
| "normal_field_slots tu layout (fd # rest) i =
     normal_slot tu layout i fd # normal_field_slots tu layout rest (Suc i)"

definition vtordisp_slot ::
  "CXTranslationUnit \<Rightarrow> ASTRecordLayout \<Rightarrow> CXXBaseSpecifier \<Rightarrow> PathogenRecordField" where
  "vtordisp_slot tu layout b =
     field_init VTorDisp (getVBaseClassOffset layout (getAsCXXRecordDecl b) - 4) ''vtordisp''
       (MakeCXType (base_getType b) tu)"

definition virtual_base_slot ::
  "CXTranslationUnit \<Rightarrow> ASTRecordLayout \<Rightarrow> CXXBaseSpecifier \<Rightarrow> PathogenRecordField" where
  "virtual_base_slot tu layout b =
     (field_init VirtualBase (getVBaseClassOffset layout (getAsCXXRecordDecl b))
        (if getAsCXXRecordDecl b = getPrimaryBase layout
         then ''primary_virtual_base'' else ''virtual_base'')
        (MakeCXType (base_getType b) tu))
     \<lparr>IsPrimaryBase := (getAsCXXRecordDecl b = getPrimaryBase layout)\<rparr>"

definition slots_of_virtual_base ::
  "CXTranslationUnit \<Rightarrow> ASTRecordLayout \<Rightarrow> CXXBaseSpecifier \<Rightarrow> PathogenRecordField list" where
  "slots_of_virtual_base tu layout b =
     (if hasVtorDisp layout (getAsCXXRecordDecl b) then [vtordisp_slot tu layout b] else [])
     @ [virtual_base_slot tu layout b]"

definition virtual_base_slots ::
  "CXTranslationUnit \<Rightarrow> ASTRecordLayout \<Rightarrow> CXXBaseSpecifier list \<Rightarrow> PathogenRecordField list" where
  "virtual_base_slots tu layout bs = concat (map (slots_of_virtual_base tu layout) bs)"

definition discovered_slots :: "CXCursor \<Rightarrow> RecordDecl \<Rightarrow> PathogenRecordField list" where
  "discovered_slots cursor record =
     (let context = getCursorContext cursor;
          tu = clang_Cursor_getTranslationUnit cursor;
          voidPointerType = MakeCXType (VoidPtrTy context) tu;
          voidPointerPointerType = MakeCXType (getPointerType context (VoidPtrTy context)) tu;
          layout = getASTRecordLayout record
      in (case dyn_cast_CXXRecordDecl record of
            None \<Rightarrow> []
          | Some c \<Rightarrow> vtable_pointer_slots context c layout voidPointerPointerType
                      @ nonvirtual_base_slots tu layout (bases c)
                      @ vbtable_pointer_slots layout voidPointerType)
         @ normal_field_slots tu layout (record_fields record) 0
         @ (case dyn_cast_CXXRecordDecl record of
              None \<Rightarrow> []
            | Some c \<Rightarrow> virtual_base_slots tu layout (vbases c)))"

definition discovered_vtables :: "CXCursor \<Rightarrow> RecordDecl \<Rightarrow> PathogenVTable list" where
  "discovered_vtables cursor record =
     (let tu = clang_Cursor_getTranslationUnit cursor
      in case dyn_cast_CXXRecordDecl record of
           None \<Rightarrow> []
         | Some c \<Rightarrow>
             if VTableContext_isMicrosoft (getCursorContext cursor)
             then map (\<lambda>off. new_PathogenVTable tu (getVFTableLayout c off)) (getVFPtrOffsets c)
             else [new_PathogenVTable tu (getVTableLayout c)])"

text \<open>
  A record with no virtual functions and no virtual bases, as the external type system
  describes it: a record that is not a C++ record at all, or a C++ record that is not
  dynamic, lists no virtual base, owns neither a virtual function pointer nor a virtual
  base pointer, and has no virtual function pointer offsets.
\<close>

definition no_virtual_functions_or_bases :: "RecordDecl \<Rightarrow> bool" where
  "no_virtual_functions_or_bases r =
     (case dyn_cast_CXXRecordDecl r of
        None \<Rightarrow> True
      | Some c \<Rightarrow> \<not> isDynamicClass c \<and> vbases c = []
                  \<and> \<not> hasOwnVFPtr (getASTRecordLayout r)
                  \<and> \<not> hasOwnVBPtr (getASTRecordLayout r)
                  \<and> getVFPtrOffsets c = [])"

subsection \<open>Example declarations\<close>

definition example_itanium_context :: ASTContext where
  "example_itanium_context =
     \<lparr>CXXABI_isMicrosoft = False, VTableContext_isMicrosoft = False, VoidPtrTy = 1,
      getPointerType = (\<lambda>t. t + 100)\<rparr>"

definition example_microsoft_context :: ASTContext where
  "example_microsoft_context =
     \<lparr>CXXABI_isMicrosoft = True, VTableContext_isMicrosoft = True, VoidPtrTy = 1,
      getPointerType = (\<lambda>t. t + 100)\<rparr>"

text \<open>\<^verbatim>\<open>struct S { int a; int b; };\<close> compiled as C for a target with 4-byte \<^verbatim>\<open>int\<close>.\<close>

definition example_plain_record :: RecordDecl where
  "example_plain_record =
     \<lparr>getDefinition = Some 20,
      record_fields =
        [\<lparr>field_address = Some 21, field_getName = ''a'', field_getType = 2,
          isBitField = False, getBitWidthValue = 0\<rparr>,
         \<lparr>field_address = Some 22, field_getName = ''b'', field_getType = 2,
          isBitField = False, getBitWidthValue = 0\<rparr>],
      dyn_cast_CXXRecordDecl = None,
      getASTRecordLayout =
        \<lparr>getSize = 8, getAlignment = 4, getNonVirtualSize = 8, getNonVirtualAlignment = 4,
         getPrimaryBase = None, hasOwnVFPtr = False, hasOwnVBPtr = False, getVBPtrOffset = 0,
         getFieldOffset = (\<lambda>i. if i = 0 then 0 else 32),
         getBaseClassOffset = (\<lambda>d. 0), getVBaseClassOffset = (\<lambda>d. 0),
         hasVtorDisp = (\<lambda>d. False)\<rparr>\<rparr>"

definition example_plain_cursor :: CXCursor where
  "example_plain_cursor =
     \<lparr>clang_isDeclaration = True, getCursorDecl = Some (Decl_Record example_plain_record),
      getCursorContext = example_itanium_context, clang_Cursor_getTranslationUnit = 7\<rparr>"

text \<open>
  Cursors on a forward declaration \<^verbatim>\<open>struct S;\<close>, on a function declaration and on an
  expression.
\<close>

definition example_forward_cursor :: CXCursor where
  "example_forward_cursor =
     \<lparr>clang_isDeclaration = True,
      getCursorDecl = Some (Decl_Record (example_plain_record\<lparr>getDefinition := None\<rparr>)),
      getCursorContext = example_itanium_context, clang_Cursor_getTranslationUnit = 7\<rparr>"

definition example_function_cursor :: CXCursor where
  "example_function_cursor =
     \<lparr>clang_isDeclaration = True, getCursorDecl = Some Decl_Other,
      getCursorContext = example_itanium_context, clang_Cursor_getTranslationUnit = 7\<rparr>"

definition example_expression_cursor :: CXCursor where
  "example_expression_cursor =
     \<lparr>clang_isDeclaration = False, getCursorDecl = None,
      getCursorContext = example_itanium_context, clang_Cursor_getTranslationUnit = 7\<rparr>"

text \<open>The sizes of the four types on a 64-bit target, and a caller's buffer.\<close>

definition example_sizeof :: sizeof_values where
  "example_sizeof =
     \<lparr>sizeof_PathogenTypeSizes = 20, sizeof_PathogenRecordLayout = 56,
      sizeof_PathogenRecordField = 112, sizeof_PathogenVTable = 24,
      sizeof_PathogenVTableEntry = 80\<rparr>"

definition example_sizes_buffer :: "c_int \<Rightarrow> PathogenTypeSizes" where
  "example_sizes_buffer self_size =
     \<lparr>sizes_PathogenTypeSizes = self_size, sizes_PathogenRecordLayout = 0xAAAA,
      sizes_PathogenRecordField = 0xAAAA, sizes_PathogenVTable = 0xAAAA,
      sizes_PathogenVTableEntry = 0xAAAA\<rparr>"



text \<open>
  \<^verbatim>\<open>struct P { int x; };\<close> compiled as C++ for an Itanium target: no virtual function, no
  base. The component sequence is what the external builder returns for it.
\<close>

definition example_component :: "VTableComponent_Kind \<Rightarrow> VTableComponent" where
  "example_component k =
     \<lparr>getKind = k, getVCallOffset = 0, getVBaseOffset = 0, getOffsetToTop = 0,
      getRTTIDecl = Some 40, getFunctionDecl = Some 43\<rparr>"

definition example_plain_class :: CXXRecordDecl where
  "example_plain_class =
     \<lparr>isDynamicClass = False, bases = [], vbases = [], getVFPtrOffsets = [],
      getVFTableLayout = (\<lambda>off. []),
      getVTableLayout = [example_component CK_OffsetToTop, example_component CK_RTTI]\<rparr>"

definition example_plain_class_record :: RecordDecl where
  "example_plain_class_record =
     \<lparr>getDefinition = Some 40,
      record_fields =
        [\<lparr>field_address = Some 41, field_getName = ''x'', field_getType = 2,
          isBitField = False, getBitWidthValue = 0\<rparr>],
      dyn_cast_CXXRecordDecl = Some example_plain_class,
      getASTRecordLayout =
        \<lparr>getSize = 4, getAlignment = 4, getNonVirtualSize = 4, getNonVirtualAlignment = 4,
         getPrimaryBase = None, hasOwnVFPtr = False, hasOwnVBPtr = False, getVBPtrOffset = 0,
         getFieldOffset = (\<lambda>i. 0),
         getBaseClassOffset = (\<lambda>d. 0), getVBaseClassOffset = (\<lambda>d. 0),
         hasVtorDisp = (\<lambda>d. False)\<rparr>\<rparr>"

definition example_plain_class_cursor :: CXCursor where
  "example_plain_class_cursor =
     \<lparr>clang_isDeclaration = True,
      getCursorDecl = Some (Decl_Record example_plain_class_record),
      getCursorContext = example_itanium_context, clang_Cursor_getTranslationUnit = 7\<rparr>"

text \<open>The same declaration for a Microsoft target.\<close>

definition example_plain_class_ms_cursor :: CXCursor where
  "example_plain_class_ms_cursor =
     \<lparr>clang_isDeclaration = True,
      getCursorDecl = Some (Decl_Record example_plain_class_record),
      getCursorContext = example_microsoft_context, clang_Cursor_getTranslationUnit = 7\<rparr>"

text \<open>
  \<^verbatim>\<open>struct V { virtual void f(); int x; };\<close> for a 64-bit Itanium target: the vtable
  pointer at 0, \<^verbatim>\<open>x\<close> at byte 8.
\<close>

definition example_polymorphic_class :: CXXRecordDecl where
  "example_polymorphic_class =
     \<lparr>isDynamicClass = True, bases = [], vbases = [], getVFPtrOffsets = [],
      getVFTableLayout = (\<lambda>off. []),
      getVTableLayout = [example_component CK_OffsetToTop, example_component CK_RTTI,
                         example_component CK_FunctionPointer]\<rparr>"

definition example_polymorphic_record :: RecordDecl where
  "example_polymorphic_record =
     \<lparr>getDefinition = Some 50,
      record_fields =
        [\<lparr>field_address = Some 51, field_getName = ''x'', field_getType = 2,
          isBitField = False, getBitWidthValue = 0\<rparr>],
      dyn_cast_CXXRecordDecl = Some example_polymorphic_class,
      getASTRecordLayout =
        \<lparr>getSize = 16, getAlignment = 8, getNonVirtualSize = 12, getNonVirtualAlignment = 8,
         getPrimaryBase = None, hasOwnVFPtr = True, hasOwnVBPtr = False, getVBPtrOffset = 0,
         getFieldOffset = (\<lambda>i. 64),
         getBaseClassOffset = (\<lambda>d. 0), getVBaseClassOffset = (\<lambda>d. 0),
         hasVtorDisp = (\<lambda>d. False)\<rparr>\<rparr>"

definition example_polymorphic_cursor :: CXCursor where
  "example_polymorphic_cursor =
     \<lparr>clang_isDeclaration = True,
      getCursorDecl = Some (Decl_Record example_polymorphic_record),
      getCursorContext = example_itanium_context, clang_Cursor_getTranslationUnit = 7\<rparr>"

text \<open>
  \<^verbatim>\<open>struct A { virtual void f(); int a; };\<close> and
  \<^verbatim>\<open>struct D : virtual A { D(); virtual void f(); int d; };\<close> for a 64-bit Microsoft
  target: the virtual base table pointer of \<^verbatim>\<open>D\<close> at 0, \<^verbatim>\<open>d\<close> at byte 8, the vtordisp
  of \<^verbatim>\<open>A\<close> at 20 and \<^verbatim>\<open>A\<close> at 24, with one virtual function table, of the \<^verbatim>\<open>A\<close> in
  \<^verbatim>\<open>D\<close>.
\<close>

definition example_virtual_base :: CXXBaseSpecifier where
  "example_virtual_base = \<lparr>isVirtual = True, base_getType = 3, getAsCXXRecordDecl = Some 60\<rparr>"

definition example_derived_class :: CXXRecordDecl where
  "example_derived_class =
     \<lparr>isDynamicClass = True, bases = [example_virtual_base], vbases = [example_virtual_base],
      getVFPtrOffsets = [24],
      getVFTableLayout = (\<lambda>off. if off = 24 then [example_component CK_FunctionPointer] else []),
      getVTableLayout = []\<rparr>"

definition example_derived_record :: RecordDecl where
  "example_derived_record =
     \<lparr>getDefinition = Some 70,
      record_fields =
        [\<lparr>field_address = Some 71, field_getName = ''d'', field_getType = 2,
          isBitField = False, getBitWidthValue = 0\<rparr>],
      dyn_cast_CXXRecordDecl = Some example_derived_class,
      getASTRecordLayout =
        \<lparr>getSize = 40, getAlignment = 8, getNonVirtualSize = 16, getNonVirtualAlignment = 8,
         getPrimaryBase = None, hasOwnVFPtr = False, hasOwnVBPtr = True, getVBPtrOffset = 0,
         getFieldOffset = (\<lambda>i. 64),
         getBaseClassOffset = (\<lambda>d. 0),
         getVBaseClassOffset = (\<lambda>d. if d = Some 60 then 24 else 0),
         hasVtorDisp = (\<lambda>d. d = Some 60)\<rparr>\<rparr>"

definition example_derived_cursor :: CXCursor where
  "example_derived_cursor =
     \<lparr>clang_isDeclaration = True, getCursorDecl = Some (Decl_Record example_derived_record),
      getCursorContext = example_microsoft_context, clang_Cursor_getTranslationUnit = 7\<rparr>"


section \<open>The insertions of the source compute the layout walk\<close>

lemma field_insertPoint_le: "field_insertPoint fs off \<le> length fs"
  by (induction fs) auto

lemma Offset_field_init [simp]: "Offset (field_init k off n t) = off"
  by (simp add: field_init_def)

lemma AddField_eq:
  "AddField this k off n t =
     (field_insertPoint (FirstField this) off,
      this\<lparr>FirstField := splice_field (field_init k off n t) (FirstField this)\<rparr>)"
  by (simp add: AddField_def splice_field_def field_init_def Let_def)

lemma assign_after_splice:
  assumes "Offset (g f) = Offset f"
  shows "assign_field (this\<lparr>FirstField := splice_field f fs\<rparr>)
           (field_insertPoint fs (Offset f)) g
         = this\<lparr>FirstField := splice_field (g f) fs\<rparr>"
proof -
  let ?p = "field_insertPoint fs (Offset f)"
  have p: "?p \<le> length fs" by (rule field_insertPoint_le)
  have len: "length (take ?p fs) = ?p" using p by simp
  have nth: "(take ?p fs @ f # drop ?p fs) ! ?p = f"
    using len by (metis nth_append_length)
  have upd: "(take ?p fs @ f # drop ?p fs)[?p := g f] = take ?p fs @ g f # drop ?p fs"
    using len by (metis list_update_length)
  show ?thesis
    using p assms nth upd by (simp add: assign_field_def splice_field_def)
qed

lemma sorted_splice:
  "sorted (offsets_of fs) \<Longrightarrow> sorted (offsets_of (splice_field f fs))"
proof (induction fs)
  case Nil
  then show ?case by (simp add: splice_field_def offsets_of_def)
next
  case (Cons a fs)
  show ?case
  proof (cases "sint (Offset a) \<le> sint (Offset f)")
    case True
    have tail: "sorted (offsets_of (splice_field f fs))"
      using Cons by (simp add: offsets_of_def)
    have eq: "splice_field f (a # fs) = a # splice_field f fs"
      using True by (simp add: splice_field_def)
    have "\<forall>x \<in> set (splice_field f fs). sint (Offset a) \<le> sint (Offset x)"
    proof
      fix x assume "x \<in> set (splice_field f fs)"
      then have "x = f \<or> x \<in> set fs"
        by (auto simp: splice_field_def dest: in_set_takeD in_set_dropD)
      then show "sint (Offset a) \<le> sint (Offset x)"
        using True Cons.prems by (auto simp: offsets_of_def)
    qed
    then show ?thesis using tail eq by (simp add: offsets_of_def)
  next
    case False
    have eq: "splice_field f (a # fs) = f # a # fs"
      using False by (simp add: splice_field_def)
    show ?thesis using False Cons.prems unfolding eq
      by (auto simp: offsets_of_def)
  qed
qed

lemma mset_splice: "mset (splice_field f fs) = add_mset f (mset fs)"
proof -
  have "mset (take n fs) + mset (drop n fs) = mset fs" for n
    using mset_append [of "take n fs" "drop n fs"] by simp
  then show ?thesis by (simp add: splice_field_def)
qed

lemma mset_fold_splice: "mset (fold splice_field xs fs) = mset xs + mset fs"
  by (induction xs arbitrary: fs) (simp_all add: mset_splice)

lemma sorted_fold_splice:
  "sorted (offsets_of fs) \<Longrightarrow> sorted (offsets_of (fold splice_field xs fs))"
  by (induction xs arbitrary: fs) (simp_all add: sorted_splice)

lemma add_vtable_pointer_eq:
  "add_vtable_pointer context c layout ty ret =
     ret\<lparr>FirstField := fold splice_field (vtable_pointer_slots context c layout ty)
                          (FirstField ret)\<rparr>"
  by (simp add: add_vtable_pointer_def vtable_pointer_slots_def AddField_eq)

lemma add_vbtable_pointer_eq:
  "add_vbtable_pointer layout ty ret =
     ret\<lparr>FirstField := fold splice_field (vbtable_pointer_slots layout ty) (FirstField ret)\<rparr>"
  by (simp add: add_vbtable_pointer_def vbtable_pointer_slots_def AddField_eq)

lemma assign_after_AddField:
  assumes "Offset (g (field_init k off n t)) = off"
  shows "assign_field (this\<lparr>FirstField := splice_field (field_init k off n t) fs\<rparr>)
           (field_insertPoint fs off) g
         = this\<lparr>FirstField := splice_field (g (field_init k off n t)) fs\<rparr>"
  using assign_after_splice [where g = g and f = "field_init k off n t" and this = this and fs = fs]
    assms by simp

lemma add_nonvirtual_bases_eq:
  "add_nonvirtual_bases tu layout bs ret =
     ret\<lparr>FirstField := fold splice_field (nonvirtual_base_slots tu layout bs) (FirstField ret)\<rparr>"
proof (induction bs arbitrary: ret)
  case Nil
  show ?case by (simp add: nonvirtual_base_slots_def)
next
  case (Cons b bs)
  show ?case
  proof (cases "isVirtual b")
    case True
    then show ?thesis using Cons.IH [of ret] by (simp add: nonvirtual_base_slots_def)
  next
    case False
    let ?ret2 = "ret\<lparr>FirstField := splice_field (nonvirtual_base_slot tu layout b)
                                       (FirstField ret)\<rparr>"
    have "add_nonvirtual_bases tu layout (b # bs) ret = add_nonvirtual_bases tu layout bs ?ret2"
      using False
      by (simp add: Let_def AddField_eq assign_after_AddField nonvirtual_base_slot_def)
    then show ?thesis
      using False Cons.IH [of ?ret2] by (simp add: nonvirtual_base_slots_def)
  qed
qed

lemma AddField_decl_eq:
  "AddField_decl this k off tu fd =
     (field_insertPoint (FirstField this) off,
      this\<lparr>FirstField :=
             splice_field ((field_init k off (field_getName fd) (MakeCXType (field_getType fd) tu))
                             \<lparr>FieldDeclaration := MakeCXCursor (field_address fd) tu\<rparr>)
                          (FirstField this)\<rparr>)"
  by (simp add: AddField_decl_def Let_def AddField_eq assign_after_AddField)

lemma assign_after_AddField_decl:
  assumes "Offset (g (f\<lparr>FieldDeclaration := d\<rparr>)) = Offset f"
  shows "assign_field (this\<lparr>FirstField := splice_field (f\<lparr>FieldDeclaration := d\<rparr>) fs\<rparr>)
           (field_insertPoint fs (Offset f)) g
         = this\<lparr>FirstField := splice_field (g (f\<lparr>FieldDeclaration := d\<rparr>)) fs\<rparr>"
  using assign_after_splice [where g = g and f = "f\<lparr>FieldDeclaration := d\<rparr>" and this = this
      and fs = fs] assms by simp

lemma add_normal_fields_eq:
  "add_normal_fields tu layout fds i ret =
     ret\<lparr>FirstField := fold splice_field (normal_field_slots tu layout fds i) (FirstField ret)\<rparr>"
proof (induction fds arbitrary: i ret)
  case Nil
  show ?case by simp
next
  case (Cons fd fds)
  let ?ret2 = "ret\<lparr>FirstField := splice_field (normal_slot tu layout i fd) (FirstField ret)\<rparr>"
  have "add_normal_fields tu layout (fd # fds) i ret =
          add_normal_fields tu layout fds (Suc i) ?ret2"
  proof (cases "isBitField fd")
    case True
    have "assign_field
            (ret\<lparr>FirstField :=
                   splice_field
                     ((field_init Normal (toCharUnitsFromBits (getFieldOffset layout i))
                         (field_getName fd) (MakeCXType (field_getType fd) tu))
                        \<lparr>FieldDeclaration := MakeCXCursor (field_address fd) tu\<rparr>)
                     (FirstField ret)\<rparr>)
            (field_insertPoint (FirstField ret)
               (Offset (field_init Normal (toCharUnitsFromBits (getFieldOffset layout i))
                         (field_getName fd) (MakeCXType (field_getType fd) tu))))
            (\<lambda>f. f\<lparr>IsBitField := True,
                    BitFieldStart := ucast (getFieldOffset layout i
                                       - toBits (toCharUnitsFromBits (getFieldOffset layout i))),
                    BitFieldWidth := getBitWidthValue fd\<rparr>) = ?ret2"
      using True by (subst assign_after_AddField_decl) (simp_all add: normal_slot_def Let_def)
    then show ?thesis using True by (simp add: Let_def AddField_decl_eq)
  next
    case False
    then show ?thesis by (simp add: Let_def AddField_decl_eq normal_slot_def)
  qed
  then show ?case using Cons.IH [of "Suc i" ?ret2] by simp
qed

lemma add_virtual_bases_eq:
  "add_virtual_bases tu layout bs ret =
     ret\<lparr>FirstField := fold splice_field (virtual_base_slots tu layout bs) (FirstField ret)\<rparr>"
proof (induction bs arbitrary: ret)
  case Nil
  show ?case by (simp add: virtual_base_slots_def)
next
  case (Cons b bs)
  let ?ret3 = "ret\<lparr>FirstField := fold splice_field (slots_of_virtual_base tu layout b)
                                       (FirstField ret)\<rparr>"
  have "add_virtual_bases tu layout (b # bs) ret = add_virtual_bases tu layout bs ?ret3"
    by (simp add: Let_def AddField_eq assign_after_AddField slots_of_virtual_base_def
        vtordisp_slot_def virtual_base_slot_def)
  then show ?case using Cons.IH [of ?ret3] by (simp add: virtual_base_slots_def)
qed

lemma vtable_insertPoint_eq: "vtable_insertPoint vs = length vs"
  by (induction vs) simp_all

lemma AddVTableLayout_eq:
  "AddVTableLayout this tu layout =
     this\<lparr>FirstVTable := FirstVTable this @ [new_PathogenVTable tu layout]\<rparr>"
  by (simp add: AddVTableLayout_def Let_def vtable_insertPoint_eq)

lemma add_vftable_layouts_eq:
  "add_vftable_layouts tu c offs ret =
     ret\<lparr>FirstVTable := FirstVTable ret
             @ map (\<lambda>off. new_PathogenVTable tu (getVFTableLayout c off)) offs\<rparr>"
  by (induction offs arbitrary: ret) (simp_all add: AddVTableLayout_eq)

lemma build_FirstField:
  "FirstField (build_record_layout cursor record) =
     fold splice_field (discovered_slots cursor record) []"
  by (cases "dyn_cast_CXXRecordDecl record")
    (simp_all add: build_record_layout_def discovered_slots_def Let_def
      add_vtable_pointer_eq add_nonvirtual_bases_eq add_vbtable_pointer_eq add_normal_fields_eq
      add_virtual_bases_eq add_vtable_layouts_def add_vftable_layouts_eq AddVTableLayout_eq
      new_PathogenRecordLayout_def)

lemma build_FirstVTable:
  "FirstVTable (build_record_layout cursor record) = discovered_vtables cursor record"
  by (cases "dyn_cast_CXXRecordDecl record")
    (simp_all add: build_record_layout_def discovered_vtables_def Let_def
      add_vtable_pointer_eq add_nonvirtual_bases_eq add_vbtable_pointer_eq add_normal_fields_eq
      add_virtual_bases_eq add_vtable_layouts_def add_vftable_layouts_eq AddVTableLayout_eq
      new_PathogenRecordLayout_def)

lemma build_scalars:
  "Size (build_record_layout cursor record) = getSize (getASTRecordLayout record)"
  "Alignment (build_record_layout cursor record) = getAlignment (getASTRecordLayout record)"
  "IsCppRecord (build_record_layout cursor record) = (dyn_cast_CXXRecordDecl record \<noteq> None)"
  "NonVirtualSize (build_record_layout cursor record) =
     (case dyn_cast_CXXRecordDecl record of None \<Rightarrow> 0
      | Some c \<Rightarrow> getNonVirtualSize (getASTRecordLayout record))"
  "NonVirtualAlignment (build_record_layout cursor record) =
     (case dyn_cast_CXXRecordDecl record of None \<Rightarrow> 0
      | Some c \<Rightarrow> getNonVirtualAlignment (getASTRecordLayout record))"
  by (cases "dyn_cast_CXXRecordDecl record";
      simp add: build_record_layout_def Let_def
      add_vtable_pointer_eq add_nonvirtual_bases_eq add_vbtable_pointer_eq add_normal_fields_eq
      add_virtual_bases_eq add_vtable_layouts_def add_vftable_layouts_eq AddVTableLayout_eq
      new_PathogenRecordLayout_def)+

lemma GetRecordLayout_Some:
  "pathogen_GetRecordLayout cursor = Some l \<longleftrightarrow>
     clang_isDeclaration cursor \<and>
     (\<exists>record. getCursorDecl cursor = Some (Decl_Record record) \<and> getDefinition record \<noteq> None
        \<and> l = build_record_layout cursor record)"
  by (auto simp: pathogen_GetRecordLayout_def dyn_cast_or_null_RecordDecl_def
      split: option.splits Decl.splits)

lemma EntryKind_if:
  "EntryKind a = k \<Longrightarrow> EntryKind b = k \<Longrightarrow> EntryKind (if c then a else b) = k"
  by simp

lemma EntryKind_new_PathogenVTableEntry:
  "EntryKind (new_PathogenVTableEntry translationUnit component) =
     PathogenVTableEntryKind (component_kind_value (getKind component))"
  unfolding new_PathogenVTableEntry_def Let_def
  by (intro EntryKind_if) simp_all

subsection \<open>What the walk contains\<close>

lemma set_fold_splice: "set (fold splice_field xs fs) = set xs \<union> set fs"
  using mset_fold_splice [of xs fs] by (metis set_mset_mset set_mset_union)

lemma length_fold_splice: "length (fold splice_field xs fs) = length xs + length fs"
  using mset_fold_splice [of xs fs] by (metis size_mset size_union)

lemma filter_fold_splice:
  "mset (filter P (fold splice_field xs fs)) = mset (filter P xs) + mset (filter P fs)"
  by (simp add: mset_fold_splice)

lemma set_FirstField_build:
  "set (FirstField (build_record_layout cursor record)) = set (discovered_slots cursor record)"
  by (simp add: build_FirstField set_fold_splice)

lemma field_init_simps [simp]:
  "Kind (field_init k off n t) = k"
  "Name (field_init k off n t) = n"
  "Type (field_init k off n t) = t"
  "FieldDeclaration (field_init k off n t) = CXCursor_zero"
  "IsBitField (field_init k off n t) = False"
  "BitFieldStart (field_init k off n t) = 0"
  "BitFieldWidth (field_init k off n t) = 0"
  "IsPrimaryBase (field_init k off n t) = False"
  by (simp_all add: field_init_def new_PathogenRecordField_def)

lemma vtable_pointer_slots_cases:
  "vtable_pointer_slots context c layout ty = [] \<or>
   (\<exists>n. vtable_pointer_slots context c layout ty = [field_init VTablePtr 0 n ty])"
  by (auto simp: vtable_pointer_slots_def)

lemma in_nonvirtual_base_slots:
  "f \<in> set (nonvirtual_base_slots tu layout bs) \<Longrightarrow>
     \<exists>b \<in> set bs. \<not> isVirtual b \<and> f = nonvirtual_base_slot tu layout b"
  by (auto simp: nonvirtual_base_slots_def)

lemma in_vbtable_pointer_slots:
  "f \<in> set (vbtable_pointer_slots layout ty) \<Longrightarrow>
     hasOwnVBPtr layout \<and>
     f = field_init VirtualBaseTablePtr (getVBPtrOffset layout) ''vbtable_pointer'' ty"
  by (auto simp: vbtable_pointer_slots_def split: if_splits)

lemma in_normal_field_slots:
  "f \<in> set (normal_field_slots tu layout fds i) \<Longrightarrow>
     \<exists>j < length fds. f = normal_slot tu layout (i + j) (fds ! j)"
proof (induction fds arbitrary: i)
  case Nil
  then show ?case by simp
next
  case (Cons fd fds)
  from Cons.prems have "f = normal_slot tu layout i fd
      \<or> f \<in> set (normal_field_slots tu layout fds (Suc i))" by simp
  then show ?case
  proof
    assume "f = normal_slot tu layout i fd"
    then have "f = normal_slot tu layout (i + 0) ((fd # fds) ! 0)" by simp
    then show ?thesis by blast
  next
    assume "f \<in> set (normal_field_slots tu layout fds (Suc i))"
    then obtain j where j: "j < length fds" "f = normal_slot tu layout (Suc i + j) (fds ! j)"
      using Cons.IH by blast
    then have "Suc j < length (fd # fds)"
      "f = normal_slot tu layout (i + Suc j) ((fd # fds) ! Suc j)" by simp_all
    then show ?thesis by blast
  qed
qed

lemma length_normal_field_slots [simp]:
  "length (normal_field_slots tu layout fds i) = length fds"
  by (induction fds arbitrary: i) simp_all

lemma in_virtual_base_slots:
  "f \<in> set (virtual_base_slots tu layout bs) \<Longrightarrow>
     \<exists>b \<in> set bs. (hasVtorDisp layout (getAsCXXRecordDecl b) \<and> f = vtordisp_slot tu layout b)
        \<or> f = virtual_base_slot tu layout b"
  by (auto simp: virtual_base_slots_def slots_of_virtual_base_def split: if_splits)

lemma slot_kinds [simp]:
  "Kind (nonvirtual_base_slot tu layout b) = NonVirtualBase"
  "Kind (normal_slot tu layout i fd) = Normal"
  "Kind (vtordisp_slot tu layout b) = VTorDisp"
  "Kind (virtual_base_slot tu layout b) = VirtualBase"
  by (simp_all add: nonvirtual_base_slot_def normal_slot_def vtordisp_slot_def
      virtual_base_slot_def Let_def)

lemma discovered_slots_None:
  "dyn_cast_CXXRecordDecl record = None \<Longrightarrow>
   discovered_slots cursor record =
     normal_field_slots (clang_Cursor_getTranslationUnit cursor) (getASTRecordLayout record)
       (record_fields record) 0"
  by (simp add: discovered_slots_def Let_def)

lemma discovered_slots_Some:
  "dyn_cast_CXXRecordDecl record = Some c \<Longrightarrow>
   discovered_slots cursor record =
     vtable_pointer_slots (getCursorContext cursor) c (getASTRecordLayout record)
       (MakeCXType (getPointerType (getCursorContext cursor) (VoidPtrTy (getCursorContext cursor)))
          (clang_Cursor_getTranslationUnit cursor))
     @ nonvirtual_base_slots (clang_Cursor_getTranslationUnit cursor) (getASTRecordLayout record)
         (bases c)
     @ vbtable_pointer_slots (getASTRecordLayout record)
         (MakeCXType (VoidPtrTy (getCursorContext cursor)) (clang_Cursor_getTranslationUnit cursor))
     @ normal_field_slots (clang_Cursor_getTranslationUnit cursor) (getASTRecordLayout record)
         (record_fields record) 0
     @ virtual_base_slots (clang_Cursor_getTranslationUnit cursor) (getASTRecordLayout record)
         (vbases c)"
  by (simp add: discovered_slots_def Let_def)

lemma in_discovered_slots:
  assumes "f \<in> set (discovered_slots cursor record)"
  shows "(\<exists>c n ty. dyn_cast_CXXRecordDecl record = Some c \<and> f = field_init VTablePtr 0 n ty)
    \<or> (\<exists>c b. dyn_cast_CXXRecordDecl record = Some c \<and> b \<in> set (bases c) \<and> \<not> isVirtual b
          \<and> f = nonvirtual_base_slot (clang_Cursor_getTranslationUnit cursor)
                  (getASTRecordLayout record) b)
    \<or> (\<exists>c ty. dyn_cast_CXXRecordDecl record = Some c \<and> hasOwnVBPtr (getASTRecordLayout record)
          \<and> f = field_init VirtualBaseTablePtr (getVBPtrOffset (getASTRecordLayout record))
                  ''vbtable_pointer'' ty)
    \<or> (\<exists>j < length (record_fields record).
          f = normal_slot (clang_Cursor_getTranslationUnit cursor) (getASTRecordLayout record)
                j (record_fields record ! j))
    \<or> (\<exists>c b. dyn_cast_CXXRecordDecl record = Some c \<and> b \<in> set (vbases c)
          \<and> hasVtorDisp (getASTRecordLayout record) (getAsCXXRecordDecl b)
          \<and> f = vtordisp_slot (clang_Cursor_getTranslationUnit cursor)
                  (getASTRecordLayout record) b)
    \<or> (\<exists>c b. dyn_cast_CXXRecordDecl record = Some c \<and> b \<in> set (vbases c)
          \<and> f = virtual_base_slot (clang_Cursor_getTranslationUnit cursor)
                  (getASTRecordLayout record) b)"
proof (cases "dyn_cast_CXXRecordDecl record")
  case None
  then show ?thesis
    using assms in_normal_field_slots [of f _ _ "record_fields record" 0]
    by (auto simp: discovered_slots_None)
next
  case (Some c)
  let ?ctx = "getCursorContext cursor"
  let ?tu = "clang_Cursor_getTranslationUnit cursor"
  let ?layout = "getASTRecordLayout record"
  let ?vpp = "MakeCXType (getPointerType ?ctx (VoidPtrTy ?ctx)) ?tu"
  let ?vp = "MakeCXType (VoidPtrTy ?ctx) ?tu"
  from assms Some consider
      (vptr) "f \<in> set (vtable_pointer_slots ?ctx c ?layout ?vpp)"
    | (nvb) "f \<in> set (nonvirtual_base_slots ?tu ?layout (bases c))"
    | (vbptr) "f \<in> set (vbtable_pointer_slots ?layout ?vp)"
    | (normal) "f \<in> set (normal_field_slots ?tu ?layout (record_fields record) 0)"
    | (vb) "f \<in> set (virtual_base_slots ?tu ?layout (vbases c))"
    by (auto simp: discovered_slots_Some)
  then show ?thesis
  proof cases
    case vptr
    then have "\<exists>n. f = field_init VTablePtr 0 n ?vpp"
      using vtable_pointer_slots_cases [of ?ctx c ?layout ?vpp] by auto
    then show ?thesis using Some by blast
  next
    case nvb
    then show ?thesis using Some in_nonvirtual_base_slots [OF nvb] by blast
  next
    case vbptr
    then show ?thesis using Some in_vbtable_pointer_slots [OF vbptr] by blast
  next
    case normal
    then show ?thesis using in_normal_field_slots [OF normal] by auto
  next
    case vb
    then show ?thesis using Some in_virtual_base_slots [OF vb] by blast
  qed
qed

lemma in_vtable_pointer_slots:
  "f \<in> set (vtable_pointer_slots context c layout ty) \<Longrightarrow>
     ((isDynamicClass c \<and> getPrimaryBase layout = None \<and> \<not> IsMsLayout context)
        \<or> hasOwnVFPtr layout)
     \<and> Kind f = VTablePtr \<and> Offset f = 0"
  by (auto simp: vtable_pointer_slots_def split: if_splits)

lemma filter_Kind_empty:
  "(\<And>f. f \<in> set xs \<Longrightarrow> Kind f \<noteq> k) \<Longrightarrow> filter (\<lambda>f. Kind f = k) xs = []"
  by (simp add: filter_empty_conv)

lemma filter_nonvirtual_base_slots:
  "k \<noteq> NonVirtualBase \<Longrightarrow>
   filter (\<lambda>f. Kind f = k) (nonvirtual_base_slots tu layout bs) = []"
  by (rule filter_Kind_empty) (auto dest: in_nonvirtual_base_slots)

lemma filter_vbtable_pointer_slots:
  "k \<noteq> VirtualBaseTablePtr \<Longrightarrow> filter (\<lambda>f. Kind f = k) (vbtable_pointer_slots layout ty) = []"
  by (rule filter_Kind_empty) (auto dest: in_vbtable_pointer_slots)

lemma filter_normal_field_slots:
  "k \<noteq> Normal \<Longrightarrow> filter (\<lambda>f. Kind f = k) (normal_field_slots tu layout fds i) = []"
  by (rule filter_Kind_empty) (auto dest: in_normal_field_slots)

lemma filter_vtable_pointer_slots:
  "k \<noteq> VTablePtr \<Longrightarrow> filter (\<lambda>f. Kind f = k) (vtable_pointer_slots ctx c layout ty) = []"
  by (rule filter_Kind_empty) (auto dest: in_vtable_pointer_slots)

lemma filter_virtual_base_slots:
  "k \<noteq> VTorDisp \<Longrightarrow> k \<noteq> VirtualBase \<Longrightarrow>
   filter (\<lambda>f. Kind f = k) (virtual_base_slots tu layout bs) = []"
  by (rule filter_Kind_empty) (auto dest: in_virtual_base_slots)

lemma filter_VirtualBase_slots:
  "filter (\<lambda>f. Kind f = VirtualBase) (virtual_base_slots tu layout bs) =
     map (virtual_base_slot tu layout) bs"
  by (induction bs) (simp_all add: virtual_base_slots_def slots_of_virtual_base_def)

lemma filter_VTorDisp_slots:
  "filter (\<lambda>f. Kind f = VTorDisp) (virtual_base_slots tu layout bs) =
     map (vtordisp_slot tu layout)
       (filter (\<lambda>b. hasVtorDisp layout (getAsCXXRecordDecl b)) bs)"
  by (induction bs) (simp_all add: virtual_base_slots_def slots_of_virtual_base_def)

lemma filter_FirstField_build:
  "mset (filter P (FirstField (build_record_layout cursor r))) =
     mset (filter P (discovered_slots cursor r))"
  by (simp add: build_FirstField mset_fold_splice)

lemma length_filter_FirstField_build:
  "length (filter P (FirstField (build_record_layout cursor r))) =
     length (filter P (discovered_slots cursor r))"
  using filter_FirstField_build [of P cursor r] by (metis size_mset)

lemma nth_splice_field:
  "field_insertPoint fs (Offset f) < length (splice_field f fs)
   \<and> splice_field f fs ! field_insertPoint fs (Offset f) = f"
proof -
  let ?p = "field_insertPoint fs (Offset f)"
  have p: "?p \<le> length fs" by (rule field_insertPoint_le)
  then have len: "length (take ?p fs) = ?p" by simp
  have "(take ?p fs @ f # drop ?p fs) ! ?p = f"
    using len by (metis nth_append_length)
  moreover have "?p < length (take ?p fs @ f # drop ?p fs)" using p by simp
  ultimately show ?thesis by (simp add: splice_field_def)
qed

lemma slot_flags [simp]:
  "IsBitField (nonvirtual_base_slot tu layout b) = False"
  "IsBitField (vtordisp_slot tu layout b) = False"
  "IsBitField (virtual_base_slot tu layout b) = False"
  "IsBitField (normal_slot tu layout i fd) = isBitField fd"
  "IsPrimaryBase (normal_slot tu layout i fd) = False"
  "IsPrimaryBase (vtordisp_slot tu layout b) = False"
  "IsPrimaryBase (nonvirtual_base_slot tu layout b) =
     (getAsCXXRecordDecl b = getPrimaryBase layout)"
  "IsPrimaryBase (virtual_base_slot tu layout b) =
     (getAsCXXRecordDecl b = getPrimaryBase layout)"
  by (simp_all add: nonvirtual_base_slot_def normal_slot_def vtordisp_slot_def
      virtual_base_slot_def Let_def)

lemma slot_bits [simp]:
  "BitFieldStart (nonvirtual_base_slot tu layout b) = 0"
  "BitFieldWidth (nonvirtual_base_slot tu layout b) = 0"
  "BitFieldStart (vtordisp_slot tu layout b) = 0"
  "BitFieldWidth (vtordisp_slot tu layout b) = 0"
  "BitFieldStart (virtual_base_slot tu layout b) = 0"
  "BitFieldWidth (virtual_base_slot tu layout b) = 0"
  "\<not> isBitField fd \<Longrightarrow> BitFieldStart (normal_slot tu layout i fd) = 0"
  "\<not> isBitField fd \<Longrightarrow> BitFieldWidth (normal_slot tu layout i fd) = 0"
  by (simp_all add: nonvirtual_base_slot_def normal_slot_def vtordisp_slot_def
      virtual_base_slot_def Let_def)



lemma take_field_insertPoint:
  "take (field_insertPoint fs off) fs = takeWhile (\<lambda>f. sint (Offset f) \<le> sint off) fs"
  by (induction fs) simp_all

lemma drop_field_insertPoint:
  "drop (field_insertPoint fs off) fs = dropWhile (\<lambda>f. sint (Offset f) \<le> sint off) fs"
  by (induction fs) simp_all

section \<open>The claims\<close>

text \<open>
  C1. The Field sequence of every layout that the extraction operation returns is in
  non-decreasing order of \<open>Offset\<close> from first to last, the offsets being compared as the
  signed 64-bit integers they are; and an insertion by \<^verbatim>\<open>AddField\<close> into a sequence that
  is in this order leaves a sequence that is in this order. The insertion is a splice: the
  new node stands after the nodes that the loop passed (a leading run of nodes with
  offsets at most the new one) and before all the others, which keep their order.
\<close>

theorem C1_fields_ordered_by_offset:
  "(pathogen_GetRecordLayout cursor = Some l \<longrightarrow>
      sorted (map (\<lambda>f. sint (Offset f)) (FirstField l)))
   \<and> (sorted (map (\<lambda>f. sint (Offset f)) (FirstField this)) \<longrightarrow>
        sorted (map (\<lambda>f. sint (Offset f))
                  (FirstField (snd (AddField this kind offset name type)))))
   \<and> FirstField (snd (AddField this kind offset name type)) =
        takeWhile (\<lambda>f. sint (Offset f) \<le> sint offset) (FirstField this)
        @ FirstField (snd (AddField this kind offset name type))
            ! fst (AddField this kind offset name type)
        # dropWhile (\<lambda>f. sint (Offset f) \<le> sint offset) (FirstField this)"
proof -
  have "sorted (offsets_of (FirstField (build_record_layout cursor r)))" for r
    unfolding build_FirstField by (rule sorted_fold_splice) (simp add: offsets_of_def)
  then have extraction: "pathogen_GetRecordLayout cursor = Some l \<longrightarrow>
      sorted (map (\<lambda>f. sint (Offset f)) (FirstField l))"
    by (auto simp: GetRecordLayout_Some offsets_of_def)
  have insertion: "sorted (map (\<lambda>f. sint (Offset f)) (FirstField this)) \<longrightarrow>
      sorted (map (\<lambda>f. sint (Offset f)) (FirstField (snd (AddField this kind offset name type))))"
    using sorted_splice [of "FirstField this" "field_init kind offset name type"]
    by (simp add: AddField_eq offsets_of_def)
  let ?f = "field_init kind offset name type"
  have "splice_field ?f (FirstField this) ! field_insertPoint (FirstField this) (Offset ?f) = ?f"
    using nth_splice_field [of "FirstField this" ?f] by blast
  then have splice: "FirstField (snd (AddField this kind offset name type)) =
        takeWhile (\<lambda>f. sint (Offset f) \<le> sint offset) (FirstField this)
        @ FirstField (snd (AddField this kind offset name type))
            ! fst (AddField this kind offset name type)
        # dropWhile (\<lambda>f. sint (Offset f) \<le> sint offset) (FirstField this)"
    by (simp add: AddField_eq)
      (simp add: splice_field_def take_field_insertPoint drop_field_insertPoint)
  show ?thesis using extraction insertion splice by blast
qed

text \<open>
  The layout of \<^verbatim>\<open>struct D\<close> is in order, and so is a sequence into which a vtordisp at
  the negative offset -4 is inserted after a field at offset 8.
\<close>

theorem C1_fields_ordered_by_offset_witness:
  "pathogen_GetRecordLayout example_derived_cursor \<noteq> None
   \<and> map_option (map (\<lambda>f. sint (Offset f)) \<circ> FirstField)
        (pathogen_GetRecordLayout example_derived_cursor) = Some [0, 8, 20, 24]
   \<and> map_option (sorted \<circ> map (\<lambda>f. sint (Offset f)) \<circ> FirstField)
        (pathogen_GetRecordLayout example_derived_cursor) = Some True
   \<and> sorted (map (\<lambda>f. sint (Offset f))
        (FirstField (snd (AddField new_PathogenRecordLayout Normal 8 ''d'' CXType_zero))))
   \<and> sorted (map (\<lambda>f. sint (Offset f))
        (FirstField (snd (AddField
           (snd (AddField new_PathogenRecordLayout Normal 8 ''d'' CXType_zero))
           VTorDisp (-4) ''vtordisp'' CXType_zero))))"
proof -
  obtain l where l: "pathogen_GetRecordLayout example_derived_cursor = Some l"
    by (simp add: pathogen_GetRecordLayout_def example_derived_cursor_def
        example_derived_record_def dyn_cast_or_null_RecordDecl_def)
  let ?one = "snd (AddField new_PathogenRecordLayout Normal 8 ''d'' CXType_zero)"
  have one: "sorted (map (\<lambda>f. sint (Offset f)) (FirstField ?one))"
    by (simp add: AddField_def new_PathogenRecordLayout_def new_PathogenRecordField_def)
  note C1 = C1_fields_ordered_by_offset
      [of example_derived_cursor l ?one VTorDisp "-4" "''vtordisp''" CXType_zero]
  have offsets: "map_option (map (\<lambda>f. sint (Offset f)) \<circ> FirstField)
        (pathogen_GetRecordLayout example_derived_cursor) = Some [0, 8, 20, 24]"
    by code_simp
  show ?thesis using C1 l one offsets by simp
qed

text \<open>
  C2. The extraction operation returns the null result if and only if the cursor is not a
  declaration, or its declaration is not a record declaration, or the record has no
  definition; in every other case it returns a layout.
\<close>

theorem C2_null_result_iff:
  "pathogen_GetRecordLayout cursor = None \<longleftrightarrow>
     (\<not> clang_isDeclaration cursor
      \<or> (\<forall>record. getCursorDecl cursor \<noteq> Some (Decl_Record record))
      \<or> (\<exists>record. getCursorDecl cursor = Some (Decl_Record record)
            \<and> getDefinition record = None))"
  by (auto simp: pathogen_GetRecordLayout_def dyn_cast_or_null_RecordDecl_def
      split: option.splits Decl.splits)

text \<open>
  A cursor on an expression, a cursor on a function declaration and a cursor on a forward
  declaration give the null result; the cursor on the definition of \<^verbatim>\<open>struct S\<close> gives a
  layout.
\<close>

theorem C2_null_result_iff_witness:
  "pathogen_GetRecordLayout example_expression_cursor = None
   \<and> pathogen_GetRecordLayout example_function_cursor = None
   \<and> pathogen_GetRecordLayout example_forward_cursor = None
   \<and> pathogen_GetRecordLayout example_plain_cursor \<noteq> None"
  using C2_null_result_iff [of example_expression_cursor]
    C2_null_result_iff [of example_function_cursor]
    C2_null_result_iff [of example_forward_cursor]
    C2_null_result_iff [of example_plain_cursor]
  by (simp add: example_expression_cursor_def example_function_cursor_def
      example_forward_cursor_def example_plain_cursor_def example_plain_record_def)

text \<open>
  C3. A record with no virtual functions and no virtual bases should have no VTablePointer,
  VirtualBaseTablePointer, VTorDisp or VirtualBase slot and no VTable. The source misses
  the second part under the Itanium-style vtable context: the block that adds the vtable
  pointer tests \<^verbatim>\<open>isDynamicClass()\<close>, but the block that adds the VTable layouts tests
  \<^verbatim>\<open>if (cxxRecord)\<close> alone and asks for the record's vtable whether the record is
  dynamic or not. For \<^verbatim>\<open>struct P { int x; }\<close>, compiled as C++ for an Itanium target, the
  layout has the one Normal slot of \<^verbatim>\<open>x\<close>, no VTablePointer slot, and one VTable; for
  the same declaration under the Microsoft-style vtable context, where no virtual function
  pointer offset is enumerated, it has none.
\<close>

theorem C3_plain_class_itanium_has_vtable:
  "getCursorDecl example_plain_class_cursor = Some (Decl_Record example_plain_class_record)
   \<and> no_virtual_functions_or_bases example_plain_class_record
   \<and> VTableContext_isMicrosoft (getCursorContext example_plain_class_cursor) = False
   \<and> map_option (map Kind \<circ> FirstField) (pathogen_GetRecordLayout example_plain_class_cursor)
       = Some [Normal]
   \<and> map_option (length \<circ> FirstVTable) (pathogen_GetRecordLayout example_plain_class_cursor)
       = Some 1
   \<and> getCursorDecl example_plain_class_ms_cursor
       = Some (Decl_Record example_plain_class_record)
   \<and> VTableContext_isMicrosoft (getCursorContext example_plain_class_ms_cursor) = True
   \<and> map_option (length \<circ> FirstVTable)
        (pathogen_GetRecordLayout example_plain_class_ms_cursor) = Some 0"
proof -
  have input: "getCursorDecl example_plain_class_cursor
                 = Some (Decl_Record example_plain_class_record)"
    "getCursorDecl example_plain_class_ms_cursor = Some (Decl_Record example_plain_class_record)"
    "VTableContext_isMicrosoft (getCursorContext example_plain_class_cursor) = False"
    "VTableContext_isMicrosoft (getCursorContext example_plain_class_ms_cursor) = True"
    by (simp_all add: example_plain_class_cursor_def example_plain_class_ms_cursor_def
        example_itanium_context_def example_microsoft_context_def)
  have plain: "no_virtual_functions_or_bases example_plain_class_record"
    by (simp add: no_virtual_functions_or_bases_def example_plain_class_record_def
        example_plain_class_def)
  have slots: "map_option (map Kind \<circ> FirstField)
      (pathogen_GetRecordLayout example_plain_class_cursor) = Some [Normal]"
    by code_simp
  have itanium: "map_option (length \<circ> FirstVTable)
      (pathogen_GetRecordLayout example_plain_class_cursor) = Some 1"
    by code_simp
  have microsoft: "map_option (length \<circ> FirstVTable)
      (pathogen_GetRecordLayout example_plain_class_ms_cursor) = Some 0"
    by code_simp
  show ?thesis using input plain slots itanium microsoft by simp
qed

text \<open>
  C4. Under the Itanium-style ABI (the target's C++ ABI and the vtable context both report
  that they are not Microsoft), the layout of a C++ record that is dynamic (the source's
  test for a polymorphic record) and has no primary base contains exactly one VTablePointer
  slot, every VTablePointer slot is at offset 0, and the layout has exactly one VTable.
\<close>

theorem C4_itanium_polymorphic:
  "pathogen_GetRecordLayout cursor = Some l
   \<and> getCursorDecl cursor = Some (Decl_Record record)
   \<and> dyn_cast_CXXRecordDecl record = Some c
   \<and> isDynamicClass c
   \<and> getPrimaryBase (getASTRecordLayout record) = None
   \<and> \<not> CXXABI_isMicrosoft (getCursorContext cursor)
   \<and> \<not> VTableContext_isMicrosoft (getCursorContext cursor) \<longrightarrow>
     length (filter (\<lambda>f. Kind f = VTablePtr) (FirstField l)) = 1
     \<and> (\<forall>f \<in> set (FirstField l). Kind f = VTablePtr \<longrightarrow> Offset f = 0)
     \<and> length (FirstVTable l) = 1"
proof (intro impI, elim conjE)
  assume l: "pathogen_GetRecordLayout cursor = Some l"
    and decl: "getCursorDecl cursor = Some (Decl_Record record)"
    and c: "dyn_cast_CXXRecordDecl record = Some c"
    and dyn: "isDynamicClass c"
    and prim: "getPrimaryBase (getASTRecordLayout record) = None"
    and abi: "\<not> CXXABI_isMicrosoft (getCursorContext cursor)"
    and vt: "\<not> VTableContext_isMicrosoft (getCursorContext cursor)"
  from l decl have build: "l = build_record_layout cursor record"
    by (auto simp: GetRecordLayout_Some)
  have "filter (\<lambda>f. Kind f = VTablePtr) (discovered_slots cursor record) =
          [field_init VTablePtr 0 ''vtable_pointer''
             (MakeCXType (getPointerType (getCursorContext cursor)
                (VoidPtrTy (getCursorContext cursor))) (clang_Cursor_getTranslationUnit cursor))]"
    using dyn prim abi
    by (simp add: discovered_slots_Some [OF c] filter_nonvirtual_base_slots
        filter_vbtable_pointer_slots filter_normal_field_slots filter_virtual_base_slots
        vtable_pointer_slots_def IsMsLayout_def)
  then have one: "length (filter (\<lambda>f. Kind f = VTablePtr) (FirstField l)) = 1"
    unfolding build length_filter_FirstField_build by simp
  have zero: "\<forall>f \<in> set (FirstField l). Kind f = VTablePtr \<longrightarrow> Offset f = 0"
  proof (intro ballI impI)
    fix f assume "f \<in> set (FirstField l)" and k: "Kind f = VTablePtr"
    then have "f \<in> set (discovered_slots cursor record)"
      by (simp add: build set_FirstField_build)
    from in_discovered_slots [OF this] k show "Offset f = 0" by auto
  qed
  have tables: "length (FirstVTable l) = 1"
    using c vt by (simp add: build build_FirstVTable discovered_vtables_def)
  show "length (filter (\<lambda>f. Kind f = VTablePtr) (FirstField l)) = 1
     \<and> (\<forall>f \<in> set (FirstField l). Kind f = VTablePtr \<longrightarrow> Offset f = 0)
     \<and> length (FirstVTable l) = 1"
    using one zero tables by blast
qed

text \<open>
  \<^verbatim>\<open>struct V\<close> for the Itanium target: the vtable pointer, then the field, and one
  VTable.
\<close>

theorem C4_itanium_polymorphic_witness:
  "getCursorDecl example_polymorphic_cursor = Some (Decl_Record example_polymorphic_record)
   \<and> dyn_cast_CXXRecordDecl example_polymorphic_record = Some example_polymorphic_class
   \<and> isDynamicClass example_polymorphic_class
   \<and> getPrimaryBase (getASTRecordLayout example_polymorphic_record) = None
   \<and> CXXABI_isMicrosoft (getCursorContext example_polymorphic_cursor) = False
   \<and> VTableContext_isMicrosoft (getCursorContext example_polymorphic_cursor) = False
   \<and> map_option (map Kind \<circ> FirstField) (pathogen_GetRecordLayout example_polymorphic_cursor)
       = Some [VTablePtr, Normal]
   \<and> map_option (length \<circ> filter (\<lambda>f. Kind f = VTablePtr) \<circ> FirstField)
        (pathogen_GetRecordLayout example_polymorphic_cursor) = Some 1
   \<and> map_option (length \<circ> FirstVTable) (pathogen_GetRecordLayout example_polymorphic_cursor)
       = Some 1"
proof -
  obtain l where l: "pathogen_GetRecordLayout example_polymorphic_cursor = Some l"
    by (simp add: pathogen_GetRecordLayout_def example_polymorphic_cursor_def
        example_polymorphic_record_def dyn_cast_or_null_RecordDecl_def)
  have hyps: "getCursorDecl example_polymorphic_cursor
                = Some (Decl_Record example_polymorphic_record)"
    "dyn_cast_CXXRecordDecl example_polymorphic_record = Some example_polymorphic_class"
    "isDynamicClass example_polymorphic_class"
    "getPrimaryBase (getASTRecordLayout example_polymorphic_record) = None"
    "CXXABI_isMicrosoft (getCursorContext example_polymorphic_cursor) = False"
    "VTableContext_isMicrosoft (getCursorContext example_polymorphic_cursor) = False"
    by (simp_all add: example_polymorphic_cursor_def example_polymorphic_record_def
        example_polymorphic_class_def example_itanium_context_def)
  have kinds: "map_option (map Kind \<circ> FirstField)
      (pathogen_GetRecordLayout example_polymorphic_cursor) = Some [VTablePtr, Normal]"
    by code_simp
  have "length (filter (\<lambda>f. Kind f = VTablePtr) (FirstField l)) = 1
      \<and> length (FirstVTable l) = 1"
    using C4_itanium_polymorphic [of example_polymorphic_cursor l example_polymorphic_record
        example_polymorphic_class] l hyps by simp
  then show ?thesis using l hyps kinds by simp
qed

text \<open>
  C5. Under the Microsoft-style vtable context, the layout of a C++ record has as many
  VTables as the external type system enumerates virtual function pointer offsets for the
  record, and the VTables are the translations of the virtual function tables at these
  offsets, chained in the order of the enumeration (a record that is not a C++ record has
  no offsets and no VTable); each insertion by \<^verbatim>\<open>AddVTableLayout\<close> puts the new VTable
  at the end of the chain.
\<close>

theorem C5_microsoft_vtables:
  "(pathogen_GetRecordLayout cursor = Some l
      \<and> getCursorDecl cursor = Some (Decl_Record record)
      \<and> VTableContext_isMicrosoft (getCursorContext cursor) \<longrightarrow>
        length (FirstVTable l) =
          (case dyn_cast_CXXRecordDecl record of
             None \<Rightarrow> 0
           | Some c \<Rightarrow> length (getVFPtrOffsets c))
        \<and> FirstVTable l =
            (case dyn_cast_CXXRecordDecl record of
               None \<Rightarrow> []
             | Some c \<Rightarrow>
                 map (\<lambda>offset. new_PathogenVTable (clang_Cursor_getTranslationUnit cursor)
                                 (getVFTableLayout c offset))
                   (getVFPtrOffsets c)))
   \<and> FirstVTable (AddVTableLayout this translationUnit layout) =
       FirstVTable this @ [new_PathogenVTable translationUnit layout]"
proof -
  have "FirstVTable (build_record_layout cursor r) =
          (case dyn_cast_CXXRecordDecl r of
             None \<Rightarrow> []
           | Some c \<Rightarrow>
               map (\<lambda>offset. new_PathogenVTable (clang_Cursor_getTranslationUnit cursor)
                               (getVFTableLayout c offset))
                 (getVFPtrOffsets c))"
    if "VTableContext_isMicrosoft (getCursorContext cursor)" for r
    using that
    by (cases "dyn_cast_CXXRecordDecl r")
      (simp_all add: build_FirstVTable discovered_vtables_def)
  then show ?thesis
    by (auto simp: GetRecordLayout_Some AddVTableLayout_eq split: option.splits)
qed

text \<open>
  \<^verbatim>\<open>struct D\<close> for the Microsoft target: one offset is enumerated, and the layout has one
  VTable.
\<close>

theorem C5_microsoft_vtables_witness:
  "pathogen_GetRecordLayout example_derived_cursor \<noteq> None
   \<and> getCursorDecl example_derived_cursor = Some (Decl_Record example_derived_record)
   \<and> dyn_cast_CXXRecordDecl example_derived_record = Some example_derived_class
   \<and> VTableContext_isMicrosoft (getCursorContext example_derived_cursor)
   \<and> map_option (length \<circ> FirstVTable) (pathogen_GetRecordLayout example_derived_cursor)
       = Some (length (getVFPtrOffsets example_derived_class))
   \<and> length (getVFPtrOffsets example_derived_class) = 1"
proof -
  obtain l where l: "pathogen_GetRecordLayout example_derived_cursor = Some l"
    by (simp add: pathogen_GetRecordLayout_def example_derived_cursor_def
        example_derived_record_def dyn_cast_or_null_RecordDecl_def)
  have hyps: "getCursorDecl example_derived_cursor = Some (Decl_Record example_derived_record)"
    "dyn_cast_CXXRecordDecl example_derived_record = Some example_derived_class"
    "VTableContext_isMicrosoft (getCursorContext example_derived_cursor)"
    by (simp_all add: example_derived_cursor_def example_derived_record_def
        example_microsoft_context_def)
  have "length (FirstVTable l) = length (getVFPtrOffsets example_derived_class)"
    using C5_microsoft_vtables [of example_derived_cursor l example_derived_record] l hyps
    by simp
  moreover have "length (getVFPtrOffsets example_derived_class) = 1"
    by (simp add: example_derived_class_def)
  ultimately show ?thesis using l hyps by simp
qed

text \<open>
  C6. For a C++ record, the VTorDisp slots of the layout are exactly one for each virtual
  base for which the displacement map reports a vtordisp, at the base's offset minus 4
  (in 64-bit arithmetic) and with the base's type; the VirtualBase slots are exactly one
  for each virtual base, at the base's offset, with the base's type, and flagged
  \<open>IsPrimaryBase\<close> exactly when the base is the primary base. The block of the source that
  adds them inserts, for each virtual base in turn, the VTorDisp slot (when there is one)
  and then at once the VirtualBase slot, each by an ordered insertion.
\<close>

theorem C6_virtual_base_slots:
  "(pathogen_GetRecordLayout cursor = Some l
      \<and> getCursorDecl cursor = Some (Decl_Record record)
      \<and> dyn_cast_CXXRecordDecl record = Some c \<longrightarrow>
        mset (map (\<lambda>f. (Offset f, Type f))
                (filter (\<lambda>f. Kind f = VTorDisp) (FirstField l))) =
        mset (map (\<lambda>b. (getVBaseClassOffset (getASTRecordLayout record)
                            (getAsCXXRecordDecl b) - 4,
                         MakeCXType (base_getType b) (clang_Cursor_getTranslationUnit cursor)))
                (filter (\<lambda>b. hasVtorDisp (getASTRecordLayout record) (getAsCXXRecordDecl b))
                   (vbases c)))
        \<and> mset (map (\<lambda>f. (Offset f, Type f, IsPrimaryBase f))
                  (filter (\<lambda>f. Kind f = VirtualBase) (FirstField l))) =
          mset (map (\<lambda>b. (getVBaseClassOffset (getASTRecordLayout record)
                              (getAsCXXRecordDecl b),
                           MakeCXType (base_getType b) (clang_Cursor_getTranslationUnit cursor),
                           getAsCXXRecordDecl b = getPrimaryBase (getASTRecordLayout record)))
                  (vbases c)))
   \<and> FirstField (add_virtual_bases translationUnit layout bs ret) =
       fold splice_field (virtual_base_slots translationUnit layout bs) (FirstField ret)"
proof -
  let ?tu = "clang_Cursor_getTranslationUnit cursor"
  let ?layout = "getASTRecordLayout record"
  have walk: "FirstField (add_virtual_bases translationUnit layout bs ret) =
       fold splice_field (virtual_base_slots translationUnit layout bs) (FirstField ret)"
    by (simp add: add_virtual_bases_eq)
  have final: "mset (map (\<lambda>f. (Offset f, Type f))
                (filter (\<lambda>f. Kind f = VTorDisp) (FirstField l))) =
        mset (map (\<lambda>b. (getVBaseClassOffset ?layout (getAsCXXRecordDecl b) - 4,
                         MakeCXType (base_getType b) ?tu))
                (filter (\<lambda>b. hasVtorDisp ?layout (getAsCXXRecordDecl b)) (vbases c)))
        \<and> mset (map (\<lambda>f. (Offset f, Type f, IsPrimaryBase f))
                  (filter (\<lambda>f. Kind f = VirtualBase) (FirstField l))) =
          mset (map (\<lambda>b. (getVBaseClassOffset ?layout (getAsCXXRecordDecl b),
                           MakeCXType (base_getType b) ?tu,
                           getAsCXXRecordDecl b = getPrimaryBase ?layout))
                  (vbases c))"
    if l: "pathogen_GetRecordLayout cursor = Some l"
      and decl: "getCursorDecl cursor = Some (Decl_Record record)"
      and c: "dyn_cast_CXXRecordDecl record = Some c"
  proof -
    from l decl have build: "l = build_record_layout cursor record"
      by (auto simp: GetRecordLayout_Some)
    have vtd: "filter (\<lambda>f. Kind f = VTorDisp) (discovered_slots cursor record) =
        map (vtordisp_slot ?tu ?layout)
          (filter (\<lambda>b. hasVtorDisp ?layout (getAsCXXRecordDecl b)) (vbases c))"
      by (simp add: discovered_slots_Some [OF c] filter_nonvirtual_base_slots
          filter_vbtable_pointer_slots filter_normal_field_slots filter_vtable_pointer_slots
          filter_VTorDisp_slots)
    have vb: "filter (\<lambda>f. Kind f = VirtualBase) (discovered_slots cursor record) =
        map (virtual_base_slot ?tu ?layout) (vbases c)"
      by (simp add: discovered_slots_Some [OF c] filter_nonvirtual_base_slots
          filter_vbtable_pointer_slots filter_normal_field_slots filter_vtable_pointer_slots
          filter_VirtualBase_slots)
    have "mset (map g (filter P (FirstField l))) =
            mset (map g (filter P (discovered_slots cursor record)))" for g :: "PathogenRecordField \<Rightarrow> 'x" and P
      using filter_FirstField_build [of P cursor "record"]
      by (metis build mset_map)
    note final = this
    have m1: "map (\<lambda>f. (Offset f, Type f)) (map (vtordisp_slot ?tu ?layout) xs) =
        map (\<lambda>b. (getVBaseClassOffset ?layout (getAsCXXRecordDecl b) - 4,
                    MakeCXType (base_getType b) ?tu)) xs" for xs
      by (simp add: vtordisp_slot_def)
    have m2: "map (\<lambda>f. (Offset f, Type f, IsPrimaryBase f))
          (map (virtual_base_slot ?tu ?layout) xs) =
        map (\<lambda>b. (getVBaseClassOffset ?layout (getAsCXXRecordDecl b),
                    MakeCXType (base_getType b) ?tu,
                    getAsCXXRecordDecl b = getPrimaryBase ?layout)) xs" for xs
      by (simp add: virtual_base_slot_def)
    show ?thesis
      by (simp only: final vtd vb m1 m2)
  qed
  show ?thesis using walk final by blast
qed

text \<open>
  \<^verbatim>\<open>struct D\<close> for the Microsoft target: the vtordisp of its virtual base \<^verbatim>\<open>A\<close> at 20
  and \<^verbatim>\<open>A\<close> itself at 24, which is not a primary base.
\<close>

theorem C6_virtual_base_slots_witness:
  "getCursorDecl example_derived_cursor = Some (Decl_Record example_derived_record)
   \<and> dyn_cast_CXXRecordDecl example_derived_record = Some example_derived_class
   \<and> map_option (map (\<lambda>f. (Kind f, sint (Offset f))) \<circ> FirstField)
       (pathogen_GetRecordLayout example_derived_cursor)
       = Some [(VirtualBaseTablePtr, 0), (Normal, 8), (VTorDisp, 20), (VirtualBase, 24)]
   \<and> map_option (\<lambda>l. mset (map (\<lambda>f. (Offset f, Type f))
                           (filter (\<lambda>f. Kind f = VTorDisp) (FirstField l))))
       (pathogen_GetRecordLayout example_derived_cursor) = Some {#(20, MakeCXType 3 7)#}
   \<and> map_option (\<lambda>l. mset (map (\<lambda>f. (Offset f, Type f, IsPrimaryBase f))
                           (filter (\<lambda>f. Kind f = VirtualBase) (FirstField l))))
       (pathogen_GetRecordLayout example_derived_cursor) = Some {#(24, MakeCXType 3 7, False)#}"
proof -
  obtain l where l: "pathogen_GetRecordLayout example_derived_cursor = Some l"
    by (simp add: pathogen_GetRecordLayout_def example_derived_cursor_def
        example_derived_record_def dyn_cast_or_null_RecordDecl_def)
  have hyps: "getCursorDecl example_derived_cursor = Some (Decl_Record example_derived_record)"
    "dyn_cast_CXXRecordDecl example_derived_record = Some example_derived_class"
    by (simp_all add: example_derived_cursor_def example_derived_record_def)
  have walk: "map_option (map (\<lambda>f. (Kind f, sint (Offset f))) \<circ> FirstField)
       (pathogen_GetRecordLayout example_derived_cursor)
       = Some [(VirtualBaseTablePtr, 0), (Normal, 8), (VTorDisp, 20), (VirtualBase, 24)]"
    by code_simp
  have "mset (map (\<lambda>f. (Offset f, Type f))
                (filter (\<lambda>f. Kind f = VTorDisp) (FirstField l))) = {#(20, MakeCXType 3 7)#}
        \<and> mset (map (\<lambda>f. (Offset f, Type f, IsPrimaryBase f))
                (filter (\<lambda>f. Kind f = VirtualBase) (FirstField l)))
            = {#(24, MakeCXType 3 7, False)#}"
    using C6_virtual_base_slots [of example_derived_cursor l example_derived_record
        example_derived_class] l hyps
    by (simp add: example_derived_class_def example_derived_record_def
        example_derived_cursor_def example_virtual_base_def)
  then show ?thesis using l hyps walk by simp
qed

text \<open>
  C7. The eight enumerators of the VTableEntry kind have the ordinals 0 to 7, each equal to
  the ordinal of the corresponding component kind of the external vtable builder, and the
  translation of a component keeps the ordinal of its kind.
\<close>

theorem C7_entry_kind_ordinals:
  "kind_value VCallOffset = 0 \<and> kind_value VBaseOffset = 1 \<and> kind_value OffsetToTop = 2
   \<and> kind_value RTTI = 3 \<and> kind_value FunctionPointer = 4
   \<and> kind_value CompleteDestructorPointer = 5 \<and> kind_value DeletingDestructorPointer = 6
   \<and> kind_value UnusedFunctionPointer = 7
   \<and> kind_value VCallOffset = component_kind_value CK_VCallOffset
   \<and> kind_value VBaseOffset = component_kind_value CK_VBaseOffset
   \<and> kind_value OffsetToTop = component_kind_value CK_OffsetToTop
   \<and> kind_value RTTI = component_kind_value CK_RTTI
   \<and> kind_value FunctionPointer = component_kind_value CK_FunctionPointer
   \<and> kind_value CompleteDestructorPointer = component_kind_value CK_CompleteDtorPointer
   \<and> kind_value DeletingDestructorPointer = component_kind_value CK_DeletingDtorPointer
   \<and> kind_value UnusedFunctionPointer = component_kind_value CK_UnusedFunctionPointer
   \<and> kind_value (EntryKind (new_PathogenVTableEntry translationUnit component))
       = component_kind_value (getKind component)"
proof -
  have ordinals:
    "kind_value VCallOffset = 0" "kind_value VBaseOffset = 1" "kind_value OffsetToTop = 2"
    "kind_value RTTI = 3" "kind_value FunctionPointer = 4"
    "kind_value CompleteDestructorPointer = 5" "kind_value DeletingDestructorPointer = 6"
    "kind_value UnusedFunctionPointer = 7"
    by (simp_all add: VCallOffset_def VBaseOffset_def OffsetToTop_def RTTI_def
        FunctionPointer_def CompleteDestructorPointer_def DeletingDestructorPointer_def
        UnusedFunctionPointer_def)
  have components:
    "component_kind_value CK_VCallOffset = 0" "component_kind_value CK_VBaseOffset = 1"
    "component_kind_value CK_OffsetToTop = 2" "component_kind_value CK_RTTI = 3"
    "component_kind_value CK_FunctionPointer = 4"
    "component_kind_value CK_CompleteDtorPointer = 5"
    "component_kind_value CK_DeletingDtorPointer = 6"
    "component_kind_value CK_UnusedFunctionPointer = 7"
    by (simp_all add: CK_VCallOffset_def CK_VBaseOffset_def CK_OffsetToTop_def CK_RTTI_def
        CK_FunctionPointer_def CK_CompleteDtorPointer_def CK_DeletingDtorPointer_def
        CK_UnusedFunctionPointer_def)
  have cast: "kind_value (EntryKind (new_PathogenVTableEntry translationUnit component))
                = component_kind_value (getKind component)"
    by (simp add: EntryKind_new_PathogenVTableEntry)
  show ?thesis using ordinals components cast by simp
qed

text \<open>
  C8. The introspection operation returns false and leaves the buffer as it was when the
  buffer's declared self-size differs from the size of the structure; otherwise it returns
  true with all four sizes filled in. In no case is the buffer partially written.
\<close>

theorem C8_type_sizes:
  "(scast (sizes_PathogenTypeSizes sizes) \<noteq> sizeof_PathogenTypeSizes sz \<longrightarrow>
      pathogen_GetTypeSizes sz sizes = (False, sizes))
   \<and> (scast (sizes_PathogenTypeSizes sizes) = sizeof_PathogenTypeSizes sz \<longrightarrow>
        fst (pathogen_GetTypeSizes sz sizes) = True
        \<and> sizes_PathogenTypeSizes (snd (pathogen_GetTypeSizes sz sizes))
            = sizes_PathogenTypeSizes sizes
        \<and> sizes_PathogenRecordLayout (snd (pathogen_GetTypeSizes sz sizes))
            = ucast (sizeof_PathogenRecordLayout sz)
        \<and> sizes_PathogenRecordField (snd (pathogen_GetTypeSizes sz sizes))
            = ucast (sizeof_PathogenRecordField sz)
        \<and> sizes_PathogenVTable (snd (pathogen_GetTypeSizes sz sizes))
            = ucast (sizeof_PathogenVTable sz)
        \<and> sizes_PathogenVTableEntry (snd (pathogen_GetTypeSizes sz sizes))
            = ucast (sizeof_PathogenVTableEntry sz))"
  by (simp add: pathogen_GetTypeSizes_def)

text \<open>
  A buffer that declares 16 bytes is left as it was; a buffer that declares the 20 bytes
  of the structure is filled in.
\<close>

theorem C8_type_sizes_witness:
  "pathogen_GetTypeSizes example_sizeof (example_sizes_buffer 16)
     = (False, example_sizes_buffer 16)
   \<and> fst (pathogen_GetTypeSizes example_sizeof (example_sizes_buffer 20)) = True
   \<and> sizes_PathogenRecordLayout
        (snd (pathogen_GetTypeSizes example_sizeof (example_sizes_buffer 20))) = 56
   \<and> sizes_PathogenRecordField
        (snd (pathogen_GetTypeSizes example_sizeof (example_sizes_buffer 20))) = 112
   \<and> sizes_PathogenVTable
        (snd (pathogen_GetTypeSizes example_sizeof (example_sizes_buffer 20))) = 24
   \<and> sizes_PathogenVTableEntry
        (snd (pathogen_GetTypeSizes example_sizeof (example_sizes_buffer 20))) = 80"
  using C8_type_sizes [of "example_sizes_buffer 16" example_sizeof]
    C8_type_sizes [of "example_sizes_buffer 20" example_sizeof]
  by (simp add: example_sizeof_def example_sizes_buffer_def)




text \<open>
  C10. A layout and a field are value-initialised when they are created. A new layout has
  empty lists and zero in every member. The layout of a record that is not a C++ record
  has \<open>IsCppRecord\<close> false, \<open>NonVirtualSize\<close> and \<open>NonVirtualAlignment\<close> 0, no VTable, and
  one Normal slot for each declared field. The node that \<^verbatim>\<open>AddField\<close> returns carries the
  four arguments and is zero elsewhere: no field declaration, not a bitfield, start and
  width 0, not a primary base. In a returned layout, the bitfield members are set on
  Normal slots only and are zero on every slot that is not a bitfield, and
  \<open>IsPrimaryBase\<close> is set on NonVirtualBase and VirtualBase slots only.
\<close>

theorem C10_value_initialised:
  "(FirstField new_PathogenRecordLayout = [] \<and> FirstVTable new_PathogenRecordLayout = []
      \<and> Size new_PathogenRecordLayout = 0 \<and> Alignment new_PathogenRecordLayout = 0
      \<and> IsCppRecord new_PathogenRecordLayout = False
      \<and> NonVirtualSize new_PathogenRecordLayout = 0
      \<and> NonVirtualAlignment new_PathogenRecordLayout = 0)
   \<and> (pathogen_GetRecordLayout cursor = Some l
        \<and> getCursorDecl cursor = Some (Decl_Record record)
        \<and> dyn_cast_CXXRecordDecl record = None \<longrightarrow>
          IsCppRecord l = False \<and> NonVirtualSize l = 0 \<and> NonVirtualAlignment l = 0
          \<and> FirstVTable l = []
          \<and> length (FirstField l) = length (record_fields record)
          \<and> (\<forall>f \<in> set (FirstField l). Kind f = Normal))
   \<and> (AddField this kind offset name type = (p, this') \<longrightarrow>
         p < length (FirstField this')
         \<and> Kind (FirstField this' ! p) = kind
         \<and> Offset (FirstField this' ! p) = offset
         \<and> Name (FirstField this' ! p) = name
         \<and> Type (FirstField this' ! p) = type
         \<and> FieldDeclaration (FirstField this' ! p) = CXCursor_zero
         \<and> IsBitField (FirstField this' ! p) = False
         \<and> BitFieldStart (FirstField this' ! p) = 0
         \<and> BitFieldWidth (FirstField this' ! p) = 0
         \<and> IsPrimaryBase (FirstField this' ! p) = False)
   \<and> (pathogen_GetRecordLayout cursor = Some l \<longrightarrow>
         (\<forall>f \<in> set (FirstField l).
            (IsBitField f \<longrightarrow> Kind f = Normal)
            \<and> (\<not> IsBitField f \<longrightarrow> BitFieldStart f = 0 \<and> BitFieldWidth f = 0)
            \<and> (IsPrimaryBase f \<longrightarrow> Kind f = NonVirtualBase \<or> Kind f = VirtualBase)))"
proof -
  have fresh: "FirstField new_PathogenRecordLayout = [] \<and> FirstVTable new_PathogenRecordLayout = []
      \<and> Size new_PathogenRecordLayout = 0 \<and> Alignment new_PathogenRecordLayout = 0
      \<and> IsCppRecord new_PathogenRecordLayout = False
      \<and> NonVirtualSize new_PathogenRecordLayout = 0
      \<and> NonVirtualAlignment new_PathogenRecordLayout = 0"
    by (simp add: new_PathogenRecordLayout_def)
  have plain: "IsCppRecord l = False \<and> NonVirtualSize l = 0 \<and> NonVirtualAlignment l = 0
          \<and> FirstVTable l = []
          \<and> length (FirstField l) = length (record_fields record)
          \<and> (\<forall>f \<in> set (FirstField l). Kind f = Normal)"
    if l: "pathogen_GetRecordLayout cursor = Some l"
      and decl: "getCursorDecl cursor = Some (Decl_Record record)"
      and c: "dyn_cast_CXXRecordDecl record = None"
  proof -
    from l decl have build: "l = build_record_layout cursor record"
      by (auto simp: GetRecordLayout_Some)
    have "\<forall>f \<in> set (FirstField l). Kind f = Normal"
      using c by (auto simp: build set_FirstField_build discovered_slots_None
          dest: in_normal_field_slots)
    moreover have "length (FirstField l) = length (record_fields record)"
      using c by (simp add: build build_FirstField length_fold_splice discovered_slots_None)
    ultimately show ?thesis
      using c by (simp add: build build_scalars build_FirstVTable discovered_vtables_def)
  qed
  have node: "p < length (FirstField this')
         \<and> Kind (FirstField this' ! p) = kind
         \<and> Offset (FirstField this' ! p) = offset
         \<and> Name (FirstField this' ! p) = name
         \<and> Type (FirstField this' ! p) = type
         \<and> FieldDeclaration (FirstField this' ! p) = CXCursor_zero
         \<and> IsBitField (FirstField this' ! p) = False
         \<and> BitFieldStart (FirstField this' ! p) = 0
         \<and> BitFieldWidth (FirstField this' ! p) = 0
         \<and> IsPrimaryBase (FirstField this' ! p) = False"
    if add: "AddField this kind offset name type = (p, this')"
  proof -
    let ?f = "field_init kind offset name type"
    from add have p: "p = field_insertPoint (FirstField this) (Offset ?f)"
      and fs: "FirstField this' = splice_field ?f (FirstField this)"
      by (auto simp: AddField_eq)
    have "p < length (FirstField this') \<and> FirstField this' ! p = ?f"
      unfolding p fs by (rule nth_splice_field)
    then show ?thesis by simp
  qed
  have flags: "\<forall>f \<in> set (FirstField l).
            (IsBitField f \<longrightarrow> Kind f = Normal)
            \<and> (\<not> IsBitField f \<longrightarrow> BitFieldStart f = 0 \<and> BitFieldWidth f = 0)
            \<and> (IsPrimaryBase f \<longrightarrow> Kind f = NonVirtualBase \<or> Kind f = VirtualBase)"
    if l: "pathogen_GetRecordLayout cursor = Some l"
  proof
    fix f assume f: "f \<in> set (FirstField l)"
    from l obtain r where build: "l = build_record_layout cursor r"
      by (auto simp: GetRecordLayout_Some)
    from f have "f \<in> set (discovered_slots cursor r)"
      by (simp add: build set_FirstField_build)
    from in_discovered_slots [OF this]
    show "(IsBitField f \<longrightarrow> Kind f = Normal)
            \<and> (\<not> IsBitField f \<longrightarrow> BitFieldStart f = 0 \<and> BitFieldWidth f = 0)
            \<and> (IsPrimaryBase f \<longrightarrow> Kind f = NonVirtualBase \<or> Kind f = VirtualBase)"
      by (elim disjE exE conjE) simp_all
  qed
  show ?thesis using fresh plain node flags by blast
qed

text \<open>
  The layout of \<^verbatim>\<open>struct S\<close> compiled as C, and the node of a first insertion into a
  new layout.
\<close>

theorem C10_value_initialised_witness:
  "getCursorDecl example_plain_cursor = Some (Decl_Record example_plain_record)
   \<and> dyn_cast_CXXRecordDecl example_plain_record = None
   \<and> map_option IsCppRecord (pathogen_GetRecordLayout example_plain_cursor) = Some False
   \<and> map_option NonVirtualSize (pathogen_GetRecordLayout example_plain_cursor) = Some 0
   \<and> map_option NonVirtualAlignment (pathogen_GetRecordLayout example_plain_cursor) = Some 0
   \<and> map_option FirstVTable (pathogen_GetRecordLayout example_plain_cursor) = Some []
   \<and> map_option (length \<circ> FirstField) (pathogen_GetRecordLayout example_plain_cursor) = Some 2
   \<and> fst (AddField new_PathogenRecordLayout VirtualBase 24 ''virtual_base'' CXType_zero) = 0
   \<and> IsBitField (FirstField
        (snd (AddField new_PathogenRecordLayout VirtualBase 24 ''virtual_base'' CXType_zero)) ! 0)
       = False
   \<and> IsPrimaryBase (FirstField
        (snd (AddField new_PathogenRecordLayout VirtualBase 24 ''virtual_base'' CXType_zero)) ! 0)
       = False"
proof -
  obtain l where l: "pathogen_GetRecordLayout example_plain_cursor = Some l"
    by (simp add: pathogen_GetRecordLayout_def example_plain_cursor_def
        example_plain_record_def dyn_cast_or_null_RecordDecl_def)
  have hyps: "getCursorDecl example_plain_cursor = Some (Decl_Record example_plain_record)"
    "dyn_cast_CXXRecordDecl example_plain_record = None"
    by (simp_all add: example_plain_cursor_def example_plain_record_def)
  let ?add = "AddField new_PathogenRecordLayout VirtualBase 24 ''virtual_base'' CXType_zero"
  have p: "fst ?add = 0"
    by (simp add: AddField_def new_PathogenRecordLayout_def)
  have add: "?add = (0, snd ?add)"
    using p by (metis prod.collapse)
  note C10 = C10_value_initialised [of example_plain_cursor l example_plain_record
      new_PathogenRecordLayout VirtualBase 24 "''virtual_base''" CXType_zero 0 "snd ?add"]
  have len: "length (record_fields example_plain_record) = 2"
    by (simp add: example_plain_record_def)
  show ?thesis using C10 l hyps p add len by simp
qed

end
